theory Spec2Isabelle
  imports Complex_Main
begin

section \<open>Python values, errors and sequencing\<close>

text \<open>
  The notebooks are Python. Floating-point numbers are modelled as reals, Python
  integers as \<open>int\<close> (or \<open>nat\<close> where the value counts something), numpy
  vectors as lists and numpy matrices as lists of rows. Every exception the source
  can raise in the modelled code is a value of \<open>py_error\<close>; a computation that may
  raise returns \<open>py_error + 'a\<close>, with \<open>Inl\<close> for the exception.
\<close>

datatype py_error =
  TypeError | ValueError | IndexError | NameError | FileNotFoundError | PermissionError

definition bnd :: "py_error + 'a \<Rightarrow> ('a \<Rightarrow> py_error + 'b) \<Rightarrow> py_error + 'b" where
  "bnd m f = (case m of Inl e \<Rightarrow> Inl e | Inr v \<Rightarrow> f v)"

text \<open>Python's \<open>xs[i]\<close> on a list: a negative index counts from the end.\<close>

definition py_getitem :: "'a list \<Rightarrow> int \<Rightarrow> py_error + 'a" where
  "py_getitem xs i =
     (if 0 \<le> i \<and> i < int (length xs) then Inr (xs ! nat i)
      else if i < 0 \<and> - int (length xs) \<le> i then Inr (xs ! nat (int (length xs) + i))
      else Inl IndexError)"

section \<open>Random-policy dynamics sampling\<close>

text \<open>
  An observation is the 4-tuple the source indexes as \<open>s[0]\<close>, \<open>s[1]\<close>, \<open>s[2]\<close>,
  \<open>s[3]\<close>: position, velocity, angle, angular velocity.
\<close>

record state4 =
  s0 :: real
  s1 :: real
  s2 :: real
  s3 :: real

text \<open>
  One row of the sample table: the dictionary appended to \<open>samples\<close>. The column
  \<open>r_input\<close> is the one keyed \<open>'2u - 1'\<close> by \<open>generate_sample_of_system_dynamics\<close>
  and \<open>'u'\<close> by \<open>generate_sample_of_system_dynamics_realistic\<close>.
\<close>

record sample =
  r_x :: real
  r_x_dot :: real
  r_theta :: real
  r_theta_dot :: real
  r_input :: real
  r_evolution_x :: real
  r_evolution_x_dot :: real
  r_evolution_theta_dot :: real

subsection \<open>The Gymnasium environment\<close>

text \<open>
  The environment handed to \<open>generate_sample_of_system_dynamics\<close> is a Gymnasium
  environment, an external collaborator. It and numpy's global random generator
  live in a world state \<open>'w\<close>; every call takes the world and returns the new one.
  \<open>env_reset\<close> gives the observation of \<open>env.reset()\<close> (the info dictionary is
  dropped by the source), \<open>env_step\<close> gives the observation, the terminated flag and
  the truncated flag of \<open>env.step(a)\<close> (reward and info are dropped by the source),
  \<open>randint02\<close> is \<open>np.random.randint(0, 2)\<close>.
\<close>

record 'w gym_api =
  env_reset :: "'w \<Rightarrow> state4 \<times> 'w"
  env_step :: "int \<Rightarrow> 'w \<Rightarrow> (state4 \<times> bool \<times> bool) \<times> 'w"
  randint02 :: "'w \<Rightarrow> int \<times> 'w"

text \<open>
  The body of the \<open>for\<close> loop of \<open>generate_sample_of_system_dynamics\<close>, on the loop
  variables \<open>samples\<close>, \<open>s\<close> and the world.
\<close>

definition sampling_body ::
  "'w gym_api \<Rightarrow> sample list \<times> state4 \<times> 'w \<Rightarrow> sample list \<times> state4 \<times> 'w" where
  "sampling_body env st =
     (case st of (samples, s, w) \<Rightarrow>
        (case randint02 env w of (a, w1) \<Rightarrow>
           (case env_step env a w1 of ((next_s, d, trunc), w2) \<Rightarrow>
              (let samples' = samples @
                     [\<lparr> r_x = s0 s, r_x_dot = s1 s, r_theta = s2 s, r_theta_dot = s3 s,
                        r_input = of_int (2 * a - 1),
                        r_evolution_x = s0 next_s, r_evolution_x_dot = s1 next_s,
                        r_evolution_theta_dot = s3 next_s \<rparr>]
               in if d then (case env_reset env w2 of (s', w3) \<Rightarrow> (samples', s', w3))
                  else (samples', next_s, w2)))))"

text \<open>\<open>for _ in range(nb_samples)\<close>: the body, \<open>nb_samples\<close> times.\<close>

fun sampling_loop ::
  "'w gym_api \<Rightarrow> nat \<Rightarrow> sample list \<times> state4 \<times> 'w \<Rightarrow> sample list \<times> state4 \<times> 'w" where
  "sampling_loop env 0 st = st"
| "sampling_loop env (Suc n) st = sampling_loop env n (sampling_body env st)"

text \<open>
  \<open>generate_sample_of_system_dynamics(env, nb_samples)\<close>: the returned data frame
  (its rows, in order) and the world it leaves behind.
\<close>

definition generate_sample_of_system_dynamics ::
  "'w gym_api \<Rightarrow> nat \<Rightarrow> 'w \<Rightarrow> sample list \<times> 'w" where
  "generate_sample_of_system_dynamics env nb_samples w =
     (case env_reset env w of (s, w1) \<Rightarrow>
        (case sampling_loop env nb_samples ([], s, w1) of (samples, s', w') \<Rightarrow> (samples, w')))"

subsection \<open>The realistic environment's interface\<close>

text \<open>
  \<open>generate_sample_of_system_dynamics_realistic\<close> expects another interface:
  \<open>env.reset()\<close> returns the state itself and \<open>env.step(a)\<close> returns the triple
  \<open>(state, dead, truncated)\<close>. The value of \<open>env.reset()\<close> is any Python value the
  source later subscripts: \<open>None\<close> is \<open>None\<close>, and subscripting it raises
  \<open>TypeError\<close>. Both calls may raise.
\<close>

record 'w realistic_api =
  renv_reset :: "'w \<Rightarrow> py_error + (state4 option \<times> 'w)"
  renv_step :: "int \<Rightarrow> 'w \<Rightarrow> py_error + ((state4 \<times> bool \<times> bool) \<times> 'w)"
  rrandint02 :: "'w \<Rightarrow> int \<times> 'w"

definition subscript :: "state4 option \<Rightarrow> (state4 \<Rightarrow> real) \<Rightarrow> py_error + real" where
  "subscript s sel = (case s of None \<Rightarrow> Inl TypeError | Some v \<Rightarrow> Inr (sel v))"

text \<open>\<open>EnvRealistic.action_space = [-1, 1]\<close>.\<close>

definition action_space :: "int list" where
  "action_space = [-1, 1]"

text \<open>
  What one pass through a loop body does to the function around it: it goes on to
  the next iteration with new loop variables, or it executes \<open>return\<close>.
\<close>

datatype ('st, 'r) body_result = Continue 'st | Return 'r

text \<open>
  The body of the \<open>for\<close> loop of \<open>generate_sample_of_system_dynamics_realistic\<close>. Its
  last statement, at the indentation of the loop body, is
  \<open>return pd.DataFrame(samples)\<close>.
\<close>

definition realistic_body ::
  "'w realistic_api \<Rightarrow> sample list \<times> state4 option \<times> 'w \<Rightarrow>
     py_error + (sample list \<times> state4 option \<times> 'w, sample list \<times> 'w) body_result" where
  "realistic_body env st =
     (case st of (samples, s, w) \<Rightarrow>
        (case rrandint02 env w of (k, w1) \<Rightarrow>
           bnd (py_getitem action_space k) (\<lambda>a.
           bnd (renv_step env a w1) (\<lambda>((next_s, dead, trunc), w2).
           bnd (subscript s s0) (\<lambda>x.
           bnd (subscript s s1) (\<lambda>x_dot.
           bnd (subscript s s2) (\<lambda>theta.
           bnd (subscript s s3) (\<lambda>theta_dot.
             (let samples' = samples @
                    [\<lparr> r_x = x, r_x_dot = x_dot, r_theta = theta, r_theta_dot = theta_dot,
                       r_input = of_int a,
                       r_evolution_x = s0 next_s, r_evolution_x_dot = s1 next_s,
                       r_evolution_theta_dot = s3 next_s \<rparr>]
              in bnd (if dead \<or> trunc then renv_reset env w2 else Inr (Some next_s, w2))
                   (\<lambda>(s', w3). Inr (Return (samples', w3))))))))))))"

text \<open>
  A \<open>for\<close> loop over \<open>range(n)\<close> around a body that may return: the loop ends at
  the first \<open>return\<close> or exception; when the range is used up the loop is left
  with its variables.
\<close>

fun for_range ::
  "('st \<Rightarrow> 'e + ('st, 'r) body_result) \<Rightarrow> nat \<Rightarrow> 'st \<Rightarrow> 'e + ('st, 'r) body_result" where
  "for_range body 0 st = Inr (Continue st)"
| "for_range body (Suc n) st =
     (case body st of
        Inl e \<Rightarrow> Inl e
      | Inr (Return r) \<Rightarrow> Inr (Return r)
      | Inr (Continue st') \<Rightarrow> for_range body n st')"

text \<open>
  \<open>generate_sample_of_system_dynamics_realistic(env, nb_samples)\<close>: the returned
  value is the data frame of the \<open>return\<close> inside the loop, or \<open>None\<close> when the
  function body ends without a \<open>return\<close>. The loop iterates over
  \<open>tqdm(range(nb_samples))\<close>, and \<open>tqdm\<close> is a global name of the notebook:
  \<open>tqdm_imported\<close> tells whether it is bound (to the progress bar of the tqdm
  package, which yields the elements of the range). The notebook that defines this
  function has no import of it, so that there the name is looked up in vain, after
  \<open>env.reset()\<close>, and \<open>NameError\<close> is raised.
\<close>

definition generate_sample_of_system_dynamics_realistic ::
  "bool \<Rightarrow> 'w realistic_api \<Rightarrow> nat \<Rightarrow> 'w \<Rightarrow> py_error + (sample list option \<times> 'w)" where
  "generate_sample_of_system_dynamics_realistic tqdm_imported env nb_samples w =
     bnd (renv_reset env w) (\<lambda>(s, w1).
       if \<not> tqdm_imported then Inl NameError
       else
         (case for_range (realistic_body env) nb_samples ([], s, w1) of
            Inl e \<Rightarrow> Inl e
          | Inr (Return (df, w')) \<Rightarrow> Inr (Some df, w')
          | Inr (Continue (samples, s', w')) \<Rightarrow> Inr (None, w')))"

text \<open>The pre-step state a row records: its columns \<open>x\<close>, \<open>x_dot\<close>, \<open>theta\<close>, \<open>theta_dot\<close>.\<close>

definition pre_state :: "sample \<Rightarrow> state4" where
  "pre_state r = \<lparr> s0 = r_x r, s1 = r_x_dot r, s2 = r_theta r, s3 = r_theta_dot r \<rparr>"

text \<open>
  The loop variables of \<open>generate_sample_of_system_dynamics\<close> after \<open>k\<close> passes
  through the loop body.
\<close>

definition sampling_state :: "'w gym_api \<Rightarrow> 'w \<Rightarrow> nat \<Rightarrow> sample list \<times> state4 \<times> 'w" where
  "sampling_state env w k =
     (case env_reset env w of (s, w1) \<Rightarrow> sampling_loop env k ([], s, w1))"

subsection \<open>Concrete environments\<close>

text \<open>
  An environment of the realistic interface whose episodes never end. The world
  counts the calls of \<open>env.step\<close>; the random generator always draws \<open>1\<close>.
\<close>

definition steady_renv :: "nat realistic_api" where
  "steady_renv =
     \<lparr> renv_reset = (\<lambda>w. Inr (Some \<lparr> s0 = 0, s1 = 0, s2 = 0, s3 = 0 \<rparr>, w)),
       renv_step = (\<lambda>a w. Inr ((\<lparr> s0 = of_int a, s1 = 0, s2 = 0, s3 = 0 \<rparr>, False, False), Suc w)),
       rrandint02 = (\<lambda>w. (1, w)) \<rparr>"

text \<open>
  An environment whose every step ends the episode. The world counts the calls of
  \<open>env.reset\<close>, and each reset observation carries that count as its position, so
  that a fresh reset observation is told from the one before. It is given in both
  interfaces.
\<close>

definition falling_renv :: "nat realistic_api" where
  "falling_renv =
     \<lparr> renv_reset = (\<lambda>w. Inr (Some \<lparr> s0 = of_nat w, s1 = 0, s2 = 0, s3 = 0 \<rparr>, Suc w)),
       renv_step = (\<lambda>a w. Inr ((\<lparr> s0 = 9, s1 = 0, s2 = 1, s3 = 0 \<rparr>, True, False), w)),
       rrandint02 = (\<lambda>w. (1, w)) \<rparr>"

definition falling_genv :: "nat gym_api" where
  "falling_genv =
     \<lparr> env_reset = (\<lambda>w. (\<lparr> s0 = of_nat w, s1 = 0, s2 = 0, s3 = 0 \<rparr>, Suc w)),
       env_step = (\<lambda>a w. ((\<lparr> s0 = 9, s1 = 0, s2 = 1, s3 = 0 \<rparr>, True, False), w)),
       randint02 = (\<lambda>w. (1, w)) \<rparr>"

section \<open>Editing the robot description\<close>

text \<open>
  The text \<open>addpendulum_urdf\<close> inserts: the value of its string literal
  \<open>pendulum_urdf\<close>, line by line (the literal starts with a newline and ends with
  two spaces).
\<close>

definition pendulum_urdf :: string where
  \<open>pendulum_urdf = concat
    [''\<newline>'',
     ''  <!-- Pendulum Link (Thin cylinder attached to link_6) -->\<newline>'',
     ''  <link name="pendulum_link">\<newline>'',
     ''    <inertial>\<newline>'',
     ''      <origin xyz="0 0 -0.125" rpy="0 0 0" />\<newline>'',
     ''      <mass value="0.005" />\<newline>'',
     ''      <inertia ixx="0.0001" ixy="0" ixz="0" iyy="0.0000" iyz="0" izz="0.0001" /> <!-- ixx =izz = m * l **2 /3, rest is 0 (source wiki)  -->\<newline>'',
     ''    </inertial>\<newline>'',
     ''    <visual>\<newline>'',
     ''      <origin xyz="0 0 -0.125" rpy="0 0 0" />\<newline>'',
     ''      <geometry>\<newline>'',
     ''      <cylinder length="0.25" radius="0.0025"/> <!-- Thin cylinder, length 0.25m, radius 2.5mm -->\<newline>'',
     ''      </geometry>\<newline>'',
     ''      <material name="">\<newline>'',
     ''        <color rgba="0.792156862745098 0.819607843137255 0.933333333333333 1" />\<newline>'',
     ''      </material>\<newline>'',
     ''    </visual>\<newline>'',
     ''    <collision>\<newline>'',
     ''      <origin xyz="0 0 -0.125" rpy="0 0 0" /> \<newline>'',
     ''      <geometry>\<newline>'',
     ''      <cylinder length="0.25" radius="0.0025"/> <!-- Thin cylinder, length 0.25m, radius 2.5mm -->\<newline>'',
     ''      </geometry>\<newline>'',
     ''    </collision>\<newline>'',
     ''  </link>\<newline>'',
     ''\<newline>'',
     ''  <!-- Pendulum Mass at the end of the pendulum_link -->\<newline>'',
     ''  <link name="pendulum_mass">\<newline>'',
     ''    <inertial>\<newline>'',
     ''      <origin xyz="0 0 -0.03" rpy="0 0 0" />\<newline>'',
     ''      <mass value="0.1" /> <!-- Mass m at the end of 100g -->\<newline>'',
     ''      <inertia ixx="0.000036" ixy="0" ixz="0" iyy="0.000036" iyz="0" izz="0.000036" /> <!-- ixx = iyy=izz = 2 *m * r **2 /5 , rest is 0 (source wiki)   -->\<newline>'',
     ''    </inertial>\<newline>'',
     ''    <visual>\<newline>'',
     ''      <origin xyz="0 0 -0.03" rpy="0 0 0" />\<newline>'',
     ''      <geometry>\<newline>'',
     ''        <sphere radius ="0.03" /> <!-- Small sphere representing the mass, radius of 3cm -->\<newline>'',
     ''      </geometry>\<newline>'',
     ''      <material name="">\<newline>'',
     ''        <color rgba="0.792156862745098 0.819607843137255 0.933333333333333 1" />\<newline>'',
     ''      </material>\<newline>'',
     ''    </visual>\<newline>'',
     ''    <collision>\<newline>'',
     ''      <origin xyz="0 0 -0.03" rpy="0 0 0" />\<newline>'',
     ''      <geometry>\<newline>'',
     ''        <sphere radius="0.03" />\<newline>'',
     ''      </geometry>\<newline>'',
     ''    </collision>\<newline>'',
     ''  </link>\<newline>'',
     ''\<newline>'',
     ''  <!-- Pendulum Revolute Joint (connects pendulum_link to link_6) -->\<newline>'',
     ''  <joint name="pendulum_joint" type="revolute">\<newline>'',
     ''    <parent link="link_6" /> <!-- Attach to link_6 -->\<newline>'',
     ''    <child link="pendulum_link" />\<newline>'',
     ''    <origin xyz="0 0 0" rpy="0 3.1416 0" /> <!-- Positioning pendulum at link_6'' @ [CHR 0x27] @ ''s end -->\<newline>'',
     ''    <axis xyz="0 1 0" /> <!-- Swinging along Y-axis -->\<newline>'',
     ''    <limit lower="- 6.30" upper="6.30" effort="0" velocity="0" /> <!-- Passive joint with zero effort -->\<newline>'',
     ''    <dynamics damping="0.01" friction="0.01" />\<newline>'',
     ''  </joint>\<newline>'',
     ''\<newline>'',
     ''  <!-- Pendulum Mass Joint (fixes mass to the end of the pendulum) -->\<newline>'',
     ''  <joint name="pendulum_mass_joint" type="fixed">\<newline>'',
     ''    <parent link="pendulum_link" />\<newline>'',
     ''    <child link="pendulum_mass" />\<newline>'',
     ''    <origin xyz="0 0 -0.25" rpy="0 0 0" /> <!-- Attach mass at the tip of pendulum -->\<newline>'',
     ''  </joint>\<newline>'',
     ''  '']\<close>

text \<open>
  The file system: the content of each file, if it exists. Files are told apart by
  an identity \<open>'f\<close>, not by the string that names them: the operating system
  resolves a path to the file it denotes (\<open>resolve\<close>), and different strings may
  resolve to one file, as \<open>in.urdf\<close> and \<open>./in.urdf\<close> do, or a link and its
  target. Opening a path for writing may fail, for a missing directory or a lack
  of permission (\<open>write_error\<close> gives the exception, if any). The content of a
  file is its text as decoded; a character is a code point below 256.
\<close>

type_synonym path = string
type_synonym 'f filesystem = "'f \<Rightarrow> string option"

record 'f os_api =
  resolve :: "path \<Rightarrow> 'f"
  write_error :: "path \<Rightarrow> py_error option"

text \<open>
  \<open>str.isspace\<close> on one character: the whitespace code points below 256 are
  9 to 13, 28 to 32, 133 and 160.
\<close>

definition is_space :: "char \<Rightarrow> bool" where
  "is_space c =
     (let n = (of_char c :: nat)
      in (9 \<le> n \<and> n \<le> 13) \<or> (28 \<le> n \<and> n \<le> 32) \<or> n = 133 \<or> n = 160)"

text \<open>\<open>str.strip()\<close>: leading and trailing whitespace removed.\<close>

definition strip :: "string \<Rightarrow> string" where
  "strip s = rev (dropWhile is_space (rev (dropWhile is_space s)))"

text \<open>
  A file opened with \<open>open(path, 'r')\<close> is read with universal newlines: a carriage
  return followed by a line feed, and a lone carriage return, are read as one line
  feed.
\<close>

fun universal_newlines :: "string \<Rightarrow> string" where
  "universal_newlines [] = []"
| "universal_newlines [c] = (if c = CHR 0x0D then [CHR 0x0A] else [c])"
| "universal_newlines (c # d # cs) =
     (if c = CHR 0x0D \<and> d = CHR 0x0A then CHR 0x0A # universal_newlines cs
      else if c = CHR 0x0D then CHR 0x0A # universal_newlines (d # cs)
      else c # universal_newlines (d # cs))"

text \<open>
  \<open>file.readlines()\<close>: the lines of the text, each with its line feed; the last line
  has none when the text does not end with one. \<open>cur\<close> is the line being read.
\<close>

fun split_lines :: "string \<Rightarrow> string \<Rightarrow> string list" where
  "split_lines cur [] = (if cur = [] then [] else [cur])"
| "split_lines cur (c # cs) =
     (if c = CHR 0x0A then (cur @ [c]) # split_lines [] cs else split_lines (cur @ [c]) cs)"

definition readlines :: "string \<Rightarrow> string list" where
  "readlines content = split_lines [] (universal_newlines content)"

text \<open>
  \<open>while urdf_data and urdf_data[-1].strip() == "": urdf_data.pop()\<close>
\<close>

function pop_trailing_blank :: "string list \<Rightarrow> string list" where
  "pop_trailing_blank urdf_data =
     (if urdf_data \<noteq> [] \<and> strip (last urdf_data) = []
      then pop_trailing_blank (butlast urdf_data) else urdf_data)"
  by pat_completeness auto
termination
  by (relation "measure length") auto

text \<open>
  \<open>addpendulum_urdf(urdf_file_path, save_to_path)\<close>: the exception it raises, if
  any, and the file system it leaves. The function has no \<open>try\<close> statement. The
  file \<open>urdf_file_path\<close> resolves to is opened for reading, which raises
  \<open>FileNotFoundError\<close> when there is none; the file \<open>save_to_path\<close> resolves to
  is opened for writing only after the edits, which creates or truncates it unless
  the opening fails, and \<open>writelines\<close> writes the lines one after the other.
  (The message printed at the end goes to the standard output, which is no file
  of the model.)
\<close>

definition addpendulum_urdf ::
  "'f os_api \<Rightarrow> 'f filesystem \<Rightarrow> path \<Rightarrow> path \<Rightarrow> (py_error + unit) \<times> 'f filesystem" where
  "addpendulum_urdf os fs urdf_file_path save_to_path =
     (case fs (resolve os urdf_file_path) of
        None \<Rightarrow> (Inl FileNotFoundError, fs)
      | Some content \<Rightarrow>
          (let urdf_data = pop_trailing_blank (readlines content)
           in case py_getitem urdf_data (- 1) of
                Inl e \<Rightarrow> (Inl e, fs)
              | Inr last_line \<Rightarrow>
                  (let urdf_data1 = (if strip last_line = ''</robot>''
                                     then butlast urdf_data else urdf_data);
                       urdf_data2 = urdf_data1 @ [pendulum_urdf];
                       urdf_data3 = urdf_data2 @ [''</robot>'' @ [CHR 0x0A]]
                   in case write_error os save_to_path of
                        Some e \<Rightarrow> (Inl e, fs)
                      | None \<Rightarrow>
                          (Inr (), fs(resolve os save_to_path \<mapsto> concat urdf_data3)))))"

text \<open>
  An operating system to run the editor on: files are identified by their path
  with every leading \<open>./\<close> removed, so that \<open>./in.urdf\<close> and \<open>in.urdf\<close> are one
  file; every path can be opened for writing.
\<close>

fun drop_dot_slash :: "path \<Rightarrow> path" where
  "drop_dot_slash (c # d # rest) =
     (if c = CHR ''.'' \<and> d = CHR ''/'' then drop_dot_slash rest else c # d # rest)"
| "drop_dot_slash p = p"

definition plain_os :: "path os_api" where
  "plain_os = \<lparr> resolve = drop_dot_slash, write_error = (\<lambda>p. None) \<rparr>"

text \<open>A description of two lines, and the file system that holds it as \<open>in.urdf\<close>.\<close>

definition small_urdf :: string where
  "small_urdf = ''<robot>'' @ [CHR 0x0A] @ ''</robot>'' @ [CHR 0x0A]"

definition small_fs :: "path filesystem" where
  "small_fs = Map.empty(''in.urdf'' \<mapsto> small_urdf)"

section \<open>Joint control of the simulated arm\<close>

subsection \<open>Floating-point numbers\<close>

text \<open>
  A Python or numpy float in the control code: a finite number, plus or minus
  infinity, or not-a-number. The operations follow IEEE 754 on the special
  values: not-a-number goes through every operation, infinity minus infinity,
  zero times infinity, zero over zero and infinity over infinity are
  not-a-number, a non-zero number over zero is an infinity, and every comparison
  with not-a-number is false. On finite numbers the operations are those of the
  reals: rounding, overflow to infinity and the sign of zero are left out, and no
  property below rests on a finite result being exact.
\<close>

datatype pyfloat = Fin real | PInf | NInf | NaN

fun fneg :: "pyfloat \<Rightarrow> pyfloat" where
  "fneg (Fin a) = Fin (- a)"
| "fneg PInf = NInf"
| "fneg NInf = PInf"
| "fneg NaN = NaN"

fun fadd :: "pyfloat \<Rightarrow> pyfloat \<Rightarrow> pyfloat" where
  "fadd NaN y = NaN"
| "fadd x NaN = NaN"
| "fadd (Fin a) (Fin b) = Fin (a + b)"
| "fadd PInf NInf = NaN"
| "fadd NInf PInf = NaN"
| "fadd PInf y = PInf"
| "fadd x PInf = PInf"
| "fadd NInf y = NInf"
| "fadd x NInf = NInf"

definition fsub :: "pyfloat \<Rightarrow> pyfloat \<Rightarrow> pyfloat" where
  "fsub x y = fadd x (fneg y)"

text \<open>An infinity of the sign of \<open>a\<close> times the sign of the infinity \<open>pos\<close> tells.\<close>

definition signed_inf :: "real \<Rightarrow> bool \<Rightarrow> pyfloat" where
  "signed_inf a pos = (if a = 0 then NaN else if (0 < a) = pos then PInf else NInf)"

fun fmul :: "pyfloat \<Rightarrow> pyfloat \<Rightarrow> pyfloat" where
  "fmul NaN y = NaN"
| "fmul x NaN = NaN"
| "fmul (Fin a) (Fin b) = Fin (a * b)"
| "fmul (Fin a) PInf = signed_inf a True"
| "fmul (Fin a) NInf = signed_inf a False"
| "fmul PInf (Fin b) = signed_inf b True"
| "fmul NInf (Fin b) = signed_inf b False"
| "fmul PInf PInf = PInf"
| "fmul NInf NInf = PInf"
| "fmul PInf NInf = NInf"
| "fmul NInf PInf = NInf"

fun fdiv :: "pyfloat \<Rightarrow> pyfloat \<Rightarrow> pyfloat" where
  "fdiv NaN y = NaN"
| "fdiv x NaN = NaN"
| "fdiv (Fin a) (Fin b) = (if b = 0 then signed_inf a True else Fin (a / b))"
| "fdiv (Fin a) PInf = Fin 0"
| "fdiv (Fin a) NInf = Fin 0"
| "fdiv PInf (Fin b) = (if 0 \<le> b then PInf else NInf)"
| "fdiv NInf (Fin b) = (if 0 \<le> b then NInf else PInf)"
| "fdiv PInf y = NaN"
| "fdiv NInf y = NaN"

fun fabs :: "pyfloat \<Rightarrow> pyfloat" where
  "fabs (Fin a) = Fin \<bar>a\<bar>"
| "fabs PInf = PInf"
| "fabs NInf = PInf"
| "fabs NaN = NaN"

text \<open>The comparisons \<open><\<close> and \<open><=\<close> of floats.\<close>

fun flt :: "pyfloat \<Rightarrow> pyfloat \<Rightarrow> bool" where
  "flt NaN y = False"
| "flt x NaN = False"
| "flt (Fin a) (Fin b) = (a < b)"
| "flt PInf y = False"
| "flt x NInf = False"
| "flt x PInf = True"
| "flt NInf y = True"

fun fle :: "pyfloat \<Rightarrow> pyfloat \<Rightarrow> bool" where
  "fle NaN y = False"
| "fle x NaN = False"
| "fle x y = (\<not> flt y x)"

text \<open>\<open>np.maximum\<close> and \<open>np.minimum\<close> on two floats: not-a-number if either is.\<close>

fun fmax :: "pyfloat \<Rightarrow> pyfloat \<Rightarrow> pyfloat" where
  "fmax NaN y = NaN"
| "fmax x NaN = NaN"
| "fmax x y = (if flt x y then y else x)"

fun fmin :: "pyfloat \<Rightarrow> pyfloat \<Rightarrow> pyfloat" where
  "fmin NaN y = NaN"
| "fmin x NaN = NaN"
| "fmin x y = (if flt y x then y else x)"

subsection \<open>numpy on vectors\<close>

text \<open>
  An elementwise operation of numpy on two one-dimensional arrays: arrays of the
  same length are combined position by position, an array of length one is
  broadcast along the other, and any other pair of lengths raises \<open>ValueError\<close>.
\<close>

definition np_broadcast ::
  "(pyfloat \<Rightarrow> pyfloat \<Rightarrow> pyfloat) \<Rightarrow> pyfloat list \<Rightarrow> pyfloat list \<Rightarrow> py_error + pyfloat list" where
  "np_broadcast f xs ys =
     (if length xs = length ys then Inr (map2 f xs ys)
      else if length xs = 1 then Inr (map (f (hd xs)) ys)
      else if length ys = 1 then Inr (map (\<lambda>x. f x (hd ys)) xs)
      else Inl ValueError)"

text \<open>
  \<open>np.max\<close> of a one-dimensional array: not-a-number if an element is; an empty
  array raises \<open>ValueError\<close>.
\<close>

definition np_max :: "pyfloat list \<Rightarrow> py_error + pyfloat" where
  "np_max xs = (case xs of [] \<Rightarrow> Inl ValueError | x # rest \<Rightarrow> Inr (fold fmax rest x))"

text \<open>
  \<open>np.clip(a, a_min, a_max)\<close>: the minimum with \<open>a_max\<close> of the maximum with
  \<open>a_min\<close>, elementwise; not-a-number stays not-a-number.
\<close>

definition np_clip :: "pyfloat list \<Rightarrow> pyfloat \<Rightarrow> pyfloat \<Rightarrow> pyfloat list" where
  "np_clip a a_min a_max = map (\<lambda>v. fmin (fmax v a_min) a_max) a"

text \<open>The sum of the elements of an array.\<close>

definition np_sum :: "pyfloat list \<Rightarrow> pyfloat" where
  "np_sum xs = foldl fadd (Fin 0) xs"

text \<open>\<open>np.dot\<close> of two one-dimensional arrays; different lengths raise \<open>ValueError\<close>.\<close>

definition np_dot :: "pyfloat list \<Rightarrow> pyfloat list \<Rightarrow> py_error + pyfloat" where
  "np_dot xs ys =
     (if length xs = length ys then Inr (np_sum (map2 fmul xs ys)) else Inl ValueError)"

text \<open>
  \<open>np.mean\<close> of a one-dimensional array: the sum over the number of elements, which
  for an empty array is zero over zero.
\<close>

definition np_mean :: "pyfloat list \<Rightarrow> pyfloat" where
  "np_mean xs = fdiv (np_sum xs) (Fin (real (length xs)))"

text \<open>
  A sequence of floats is a tuple or a numpy array. The difference \<open>-\<close> of two
  tuples raises \<open>TypeError\<close>; with an array on either side it is the difference of
  arrays.
\<close>

datatype pyseq = PyTuple "pyfloat list" | NdArray "pyfloat list"

fun seq_sub :: "pyseq \<Rightarrow> pyseq \<Rightarrow> py_error + pyfloat list" where
  "seq_sub (PyTuple xs) (PyTuple ys) = Inl TypeError"
| "seq_sub (PyTuple xs) (NdArray ys) = np_broadcast fsub xs ys"
| "seq_sub (NdArray xs) (PyTuple ys) = np_broadcast fsub xs ys"
| "seq_sub (NdArray xs) (NdArray ys) = np_broadcast fsub xs ys"

subsection \<open>The physics simulator\<close>

text \<open>
  PyBullet is an external collaborator: a simulator state \<open>'sim\<close> and the calls the
  source makes on the loaded robot (\<open>robot_id\<close>). \<open>getJointState\<close> gives position
  and velocity of a joint (\<open>[0]\<close> and \<open>[1]\<close> of the result). \<open>getLinkState\<close> gives
  the whole tuple the call returns, one sequence per component, for the link and
  the value of \<open>computeLinkVelocity\<close>. \<open>setJointMotorControl2_torque\<close> is the call
  with \<open>controlMode=TORQUE_CONTROL\<close> and the given \<open>force\<close>.
\<close>

record 'sim pybullet_api =
  getNumJoints :: "'sim \<Rightarrow> nat"
  getJointState :: "'sim \<Rightarrow> int \<Rightarrow> pyfloat \<times> pyfloat"
  getLinkState :: "'sim \<Rightarrow> int \<Rightarrow> bool \<Rightarrow> pyseq list"
  calculateInverseKinematics :: "'sim \<Rightarrow> int \<Rightarrow> pyfloat list \<Rightarrow> pyfloat list"
  setJointMotorControl2_torque :: "int \<Rightarrow> pyfloat \<Rightarrow> 'sim \<Rightarrow> 'sim"
  stepSimulation :: "'sim \<Rightarrow> 'sim"

text \<open>
  PyBullet documents the result of \<open>getLinkState\<close> as a tuple of six components,
  and of eight when \<open>computeLinkVelocity\<close> is set: the two velocities are added
  at the end.
\<close>

definition documented_link_state :: "'sim pybullet_api \<Rightarrow> bool" where
  "documented_link_state pb =
     (\<forall>sim link. length (getLinkState pb sim link True) = 8 \<and>
                 length (getLinkState pb sim link False) = 6)"

text \<open>
  The world of the control code: the simulator, and the torque commands issued so
  far, each the joint index and the force passed to the torque-control call, in
  order.
\<close>

type_synonym torque_command = "int \<times> pyfloat"
type_synonym 'sim world = "'sim \<times> torque_command list"

text \<open>\<open>|tau| <= 50\<close>, as floats compare.\<close>

definition within_limit :: "pyfloat \<Rightarrow> bool" where
  "within_limit tau = fle (fabs tau) (Fin 50)"

subsection \<open>PD control\<close>

definition pd_control ::
  "pyfloat list \<Rightarrow> pyfloat list \<Rightarrow> pyfloat list \<Rightarrow> pyfloat list \<Rightarrow> pyfloat list \<Rightarrow> pyfloat list
     \<Rightarrow> py_error + pyfloat list" where
  "pd_control q_desired v_desired q_measured v_measured Kp Kd =
     bnd (np_broadcast fsub q_desired q_measured) (\<lambda>position_error.
     bnd (np_broadcast fsub v_desired v_measured) (\<lambda>velocity_error.
     bnd (np_broadcast fmul Kp position_error) (\<lambda>p_term.
     bnd (np_broadcast fmul Kd velocity_error) (\<lambda>d_term.
       np_broadcast fadd p_term d_term))))"

text \<open>
  The test of the \<open>if\<close> in the control loop:
  \<open>np.max(np.abs(q_measured - q_desired)) < eps and np.max(np.abs(v_measured - v_desired)) < eps\<close>;
  the right operand of \<open>and\<close> is evaluated only when the left one holds.
\<close>

definition reached ::
  "pyfloat list \<Rightarrow> pyfloat list \<Rightarrow> pyfloat list \<Rightarrow> pyfloat list \<Rightarrow> pyfloat \<Rightarrow> py_error + bool" where
  "reached q_measured q_desired v_measured v_desired eps =
     bnd (np_broadcast fsub q_measured q_desired) (\<lambda>dq.
     bnd (np_max (map fabs dq)) (\<lambda>mq.
       if flt mq eps
       then bnd (np_broadcast fsub v_measured v_desired) (\<lambda>dv.
            bnd (np_max (map fabs dv)) (\<lambda>mv. Inr (flt mv eps)))
       else Inr False))"

text \<open>
  The inner loop \<open>for i in range(nq)\<close>: one torque-control call per joint, with
  \<open>force=tau[i]\<close>. The commands issued before an exception stay issued.
\<close>

fun apply_torques ::
  "'sim pybullet_api \<Rightarrow> pyfloat list \<Rightarrow> nat list \<Rightarrow> 'sim world \<Rightarrow> (py_error + unit) \<times> 'sim world" where
  "apply_torques pb tau [] wd = (Inr (), wd)"
| "apply_torques pb tau (i # rest) wd =
     (case py_getitem tau (int i) of
        Inl e \<Rightarrow> (Inl e, wd)
      | Inr force \<Rightarrow>
          apply_torques pb tau rest
            (setJointMotorControl2_torque pb (int i) force (fst wd), snd wd @ [(int i, force)]))"

text \<open>
  The body of the loop \<open>for step in range(1000)\<close> of
  \<open>control_to_desired_configuration\<close>. An exception comes with the world at the
  moment it is raised.
\<close>

definition control_body ::
  "'sim pybullet_api \<Rightarrow> nat \<Rightarrow> pyfloat list \<Rightarrow> pyfloat list \<Rightarrow> pyfloat list \<Rightarrow> pyfloat list \<Rightarrow> pyfloat
     \<Rightarrow> 'sim world \<Rightarrow> (py_error \<times> 'sim world) + ('sim world, 'sim world) body_result" where
  "control_body pb nq Kp Kd q_desired v_desired eps wd =
     (let joint_states = map (\<lambda>i. getJointState pb (fst wd) (int i)) [0..<nq];
          q_measured = map fst joint_states;
          v_measured = map snd joint_states
      in case reached q_measured q_desired v_measured v_desired eps of
           Inl e \<Rightarrow> Inl (e, wd)
         | Inr True \<Rightarrow> Inr (Return wd)
         | Inr False \<Rightarrow>
             (case pd_control q_desired v_desired q_measured v_measured Kp Kd of
                Inl e \<Rightarrow> Inl (e, wd)
              | Inr t \<Rightarrow>
                  (let tau = np_clip t (Fin (- 50)) (Fin 50)
                   in case apply_torques pb tau [0..<nq] wd of
                        (Inl e, wd') \<Rightarrow> Inl (e, wd')
                      | (Inr u, wd') \<Rightarrow>
                          Inr (Continue (stepSimulation pb (fst wd'), snd wd')))))"

text \<open>The world a pass through the loop body, or the whole loop, leaves.\<close>

fun world_after :: "('e \<times> 'w) + ('w, 'w) body_result \<Rightarrow> 'w" where
  "world_after (Inl (e, wd)) = wd"
| "world_after (Inr (Return wd)) = wd"
| "world_after (Inr (Continue wd)) = wd"

text \<open>
  \<open>control_to_desired_configuration(q_desired, v_desired, eps)\<close>: the gains are
  \<open>Kp = 20 * np.ones((nq,))\<close> and \<open>Kd = 0.05 * Kp\<close>; the function returns \<open>None\<close>
  from inside the loop or after it.
\<close>

definition control_to_desired_configuration ::
  "'sim pybullet_api \<Rightarrow> pyfloat list \<Rightarrow> pyfloat list \<Rightarrow> pyfloat \<Rightarrow> 'sim world
     \<Rightarrow> (py_error + unit) \<times> 'sim world" where
  "control_to_desired_configuration pb q_desired v_desired eps wd =
     (let nq = getNumJoints pb (fst wd);
          Kp = map (fmul (Fin 20)) (replicate nq (Fin 1));
          Kd = map (fmul (Fin 0.05)) Kp
      in case for_range (control_body pb nq Kp Kd q_desired v_desired eps) 1000 wd of
           Inl (e, wd') \<Rightarrow> (Inl e, wd')
         | Inr (Return wd') \<Rightarrow> (Inr (), wd')
         | Inr (Continue wd') \<Rightarrow> (Inr (), wd'))"

text \<open>The default \<open>eps=1e-6\<close>.\<close>

definition default_eps :: pyfloat where
  "default_eps = Fin (1 / 1000000)"

text \<open>
  \<open>move_end_effector_along_trajectory(traj, eff_idx)\<close>: for each target the joint
  configuration of the inverse kinematics, then the control loop towards it with
  desired velocities \<open>np.zeros_like(q_desired)\<close>.
\<close>

fun move_end_effector_along_trajectory ::
  "'sim pybullet_api \<Rightarrow> pyfloat list list \<Rightarrow> int \<Rightarrow> 'sim world \<Rightarrow> (py_error + unit) \<times> 'sim world" where
  "move_end_effector_along_trajectory pb [] eff_idx wd = (Inr (), wd)"
| "move_end_effector_along_trajectory pb (target # traj) eff_idx wd =
     (let q_desired = calculateInverseKinematics pb (fst wd) eff_idx target
      in case control_to_desired_configuration pb q_desired (map (\<lambda>q. Fin 0) q_desired) default_eps wd of
           (Inl e, wd') \<Rightarrow> (Inl e, wd')
         | (Inr u, wd') \<Rightarrow> move_end_effector_along_trajectory pb traj eff_idx wd')"

subsection \<open>The realistic environment\<close>

text \<open>
  An object of class \<open>EnvRealistic\<close>: its attributes; \<open>initial_pos\<close> and
  \<open>line_vector\<close> are numpy arrays. The class attributes are \<open>scale_action = 0.01\<close>
  and \<open>TIME_HORIZON = 1000\<close>.
\<close>

record EnvRealistic =
  initial_pos :: "pyfloat list"
  line_vector :: "pyfloat list"
  pendulum_link :: int
  pendulum_joint :: int
  timestep :: int

definition scale_action :: pyfloat where
  "scale_action = Fin 0.01"

definition TIME_HORIZON :: int where
  "TIME_HORIZON = 1000"

text \<open>
  \<open>EnvRealistic.get_state\<close>. Its first statement unpacks the result of
  \<open>getLinkState(robot_id, self.pendulum_link, computeLinkVelocity=True)\<close> into seven
  targets, the first \<open>position\<close> and the last \<open>velocity\<close>: a tuple of any other
  length raises \<open>ValueError\<close>. The returned state is the tuple
  \<open>(x, x_dot, theta, theta_dot)\<close>.
\<close>

type_synonym float_state = "pyfloat \<times> pyfloat \<times> pyfloat \<times> pyfloat"

definition get_state :: "'sim pybullet_api \<Rightarrow> EnvRealistic \<Rightarrow> 'sim \<Rightarrow> py_error + float_state" where
  "get_state pb self sim =
     (let link_state = getLinkState pb sim (pendulum_link self) True
      in if length link_state \<noteq> 7 then Inl ValueError
         else
           (let position = link_state ! 0; velocity = link_state ! 6
            in bnd (seq_sub position (NdArray (initial_pos self))) (\<lambda>offset.
               bnd (np_broadcast fdiv offset (line_vector self)) (\<lambda>ratio.
               bnd (seq_sub velocity position) (\<lambda>dv.
               bnd (np_dot dv (line_vector self)) (\<lambda>x_dot.
                 Inr (np_mean ratio, x_dot,
                      fst (getJointState pb sim (pendulum_joint self)),
                      snd (getJointState pb sim (pendulum_joint self)))))))))"

text \<open>
  \<open>EnvRealistic.step(action)\<close>: the returned triple \<open>(state, dead, truncated)\<close> or
  the exception, the object and the world afterwards. The end-effector index
  passed to \<open>move_end_effector_along_trajectory\<close> is the global name
  \<open>pendulum_joint\<close> of the notebook, not the attribute \<open>self.pendulum_joint\<close>:
  \<open>glob\<close> is its value, and \<open>None\<close> when the name is not bound, which raises
  \<open>NameError\<close>. No cell of the notebook binds it.
\<close>

definition EnvRealistic_step ::
  "'sim pybullet_api \<Rightarrow> int option \<Rightarrow> EnvRealistic \<Rightarrow> pyfloat \<Rightarrow> 'sim world
     \<Rightarrow> (py_error + float_state \<times> bool \<times> bool) \<times> EnvRealistic \<times> 'sim world" where
  "EnvRealistic_step pb glob self action wd =
     (let position = fst (getJointState pb (fst wd) (pendulum_joint self));
          target = map (\<lambda>l. fadd position (fmul (fmul action scale_action) l)) (line_vector self)
      in case glob of
           None \<Rightarrow> (Inl NameError, self, wd)
         | Some eff_idx \<Rightarrow>
             (case move_end_effector_along_trajectory pb [target] eff_idx wd of
                (Inl e, wd') \<Rightarrow> (Inl e, self, wd')
              | (Inr u, wd') \<Rightarrow>
                  (case get_state pb self (fst wd') of
                     Inl e \<Rightarrow> (Inl e, self, wd')
                   | Inr s \<Rightarrow>
                       (let self' = self \<lparr> timestep := timestep self + 1 \<rparr>;
                            theta = fst (snd (snd s));
                            dead = (if flt (Fin (pi / 16)) (fabs theta) then True else False);
                            truncated = (if timestep self' = TIME_HORIZON then True else False)
                        in (Inr (s, dead, truncated), self', wd')))))"

text \<open>
  \<open>EnvRealistic.reset()\<close> sets \<open>self.timestep = 0\<close> and then calls
  \<open>reset_to_initial_state()\<close> with no argument. That function is defined as
  \<open>reset_to_initial_state(body_id, initial_joint_positions=None)\<close>: the call lacks
  the required \<open>body_id\<close> and raises \<open>TypeError\<close> before anything else is done.
\<close>

definition EnvRealistic_reset ::
  "EnvRealistic \<Rightarrow> 'sim world \<Rightarrow> (py_error + float_state option) \<times> EnvRealistic \<times> 'sim world" where
  "EnvRealistic_reset self wd = (Inl TypeError, self \<lparr> timestep := 0 \<rparr>, wd)"

subsection \<open>Concrete simulators\<close>

text \<open>
  A robot of one joint, its state the joint's position and velocity. A torque
  command moves the joint by a twentieth of the force and leaves it at rest;
  inverse kinematics asks the joint to go to the first coordinate of the target;
  the link state has the documented number of components.
\<close>

definition toy_pybullet :: "(pyfloat \<times> pyfloat) pybullet_api" where
  "toy_pybullet =
     \<lparr> getNumJoints = (\<lambda>sim. 1),
       getJointState = (\<lambda>sim i. sim),
       getLinkState = (\<lambda>sim i velocity.
          replicate (if velocity then 8 else 6) (PyTuple [fst sim, Fin 0, Fin 0])),
       calculateInverseKinematics = (\<lambda>sim eff target. [hd target]),
       setJointMotorControl2_torque = (\<lambda>i force sim. (fadd (fst sim) (fdiv force (Fin 20)), Fin 0)),
       stepSimulation = (\<lambda>sim. sim) \<rparr>"

text \<open>
  A robot of one joint at rest at position zero, whose position is read as
  not-a-number before the first simulation step and correctly afterwards. The
  state counts the simulation steps.
\<close>

definition glitch_pybullet :: "nat pybullet_api" where
  "glitch_pybullet =
     \<lparr> getNumJoints = (\<lambda>sim. 1),
       getJointState = (\<lambda>sim i. (if sim = 0 then NaN else Fin 0, Fin 0)),
       getLinkState = (\<lambda>sim i velocity.
          replicate (if velocity then 8 else 6) (PyTuple [Fin 0, Fin 0, Fin 0])),
       calculateInverseKinematics = (\<lambda>sim eff target. [hd target]),
       setJointMotorControl2_torque = (\<lambda>i force sim. sim),
       stepSimulation = Suc \<rparr>"

section \<open>Local linear model and controller synthesis\<close>

subsection \<open>The sample table\<close>

text \<open>The columns of the data frame returned by \<open>generate_sample_of_system_dynamics\<close>.\<close>

datatype column =
  Col_x | Col_x_dot | Col_theta | Col_theta_dot | Col_input
  | Col_evolution_x | Col_evolution_x_dot | Col_evolution_theta_dot

fun get_col :: "column \<Rightarrow> sample \<Rightarrow> real" where
  "get_col Col_x r = r_x r"
| "get_col Col_x_dot r = r_x_dot r"
| "get_col Col_theta r = r_theta r"
| "get_col Col_theta_dot r = r_theta_dot r"
| "get_col Col_input r = r_input r"
| "get_col Col_evolution_x r = r_evolution_x r"
| "get_col Col_evolution_x_dot r = r_evolution_x_dot r"
| "get_col Col_evolution_theta_dot r = r_evolution_theta_dot r"

type_synonym matrix = "real list list"

text \<open>
  pandas: \<open>df[c]\<close> is one column, \<open>df[[c1, ..., ck]]\<close> the table of the listed
  columns, and \<open>df[flags]\<close> the rows at which the boolean series \<open>flags\<close> is true, in
  their order.
\<close>

definition df_column :: "column \<Rightarrow> sample list \<Rightarrow> real list" where
  "df_column c df = map (get_col c) df"

definition df_columns :: "column list \<Rightarrow> sample list \<Rightarrow> matrix" where
  "df_columns cs df = map (\<lambda>r. map (\<lambda>c. get_col c r) cs) df"

definition df_select :: "sample list \<Rightarrow> bool list \<Rightarrow> sample list" where
  "df_select df flags = map fst (filter snd (zip df flags))"

subsection \<open>Fitting\<close>

text \<open>
  \<open>small_angle_samples = samples[np.abs(samples["theta"]) < 0.05]\<close>
\<close>

definition small_angle_samples :: "sample list \<Rightarrow> sample list" where
  "small_angle_samples samples =
     df_select samples (map (\<lambda>t. \<bar>t\<bar> < 0.05) (df_column Col_theta samples))"

definition predictor_columns :: "column list" where
  "predictor_columns = [Col_x, Col_x_dot, Col_theta, Col_theta_dot, Col_input]"

definition outcomes :: "column list" where
  "outcomes = [Col_evolution_x_dot, Col_evolution_theta_dot, Col_evolution_x]"

text \<open>
  statsmodels is an external collaborator: \<open>OLS(endog, exog).fit()\<close> is a function
  of the two tables handed to it, and the source reads \<open>params\<close> and \<open>mse_resid\<close>
  of its result.
\<close>

record ols_results =
  params :: "real list"
  mse_resid :: real

type_synonym ols = "real list \<Rightarrow> matrix \<Rightarrow> ols_results"

text \<open>
  The fitting cell, on the global \<open>samples\<close>: for each outcome in turn, the fit it
  prints.
\<close>

definition fit_cell :: "ols \<Rightarrow> sample list \<Rightarrow> (column \<times> ols_results) list" where
  "fit_cell OLS_fit samples =
     (let sas = small_angle_samples samples;
          predictors = df_columns predictor_columns sas
      in map (\<lambda>out. (out, OLS_fit (df_column out sas) predictors)) outcomes)"

subsection \<open>The linear-quadratic regulator\<close>

text \<open>\<open>np.diag\<close> of a one-dimensional array: the square matrix with it on the diagonal.\<close>

definition np_diag :: "real list \<Rightarrow> matrix" where
  "np_diag v = map (\<lambda>i. map (\<lambda>j. if i = j then v ! i else 0) [0..<length v]) [0..<length v]"

text \<open>
  python-control is an external collaborator: \<open>dlqr(A, B, Q, R)\<close> is a function of
  its four arguments and returns the gain, the solution of the Riccati equation
  and the closed-loop eigenvalues.
\<close>

type_synonym dlqr_solver = "matrix \<Rightarrow> matrix \<Rightarrow> matrix \<Rightarrow> matrix \<Rightarrow> matrix \<times> matrix \<times> complex list"

text \<open>The globals the controller cell binds.\<close>

record lqr_globals =
  lqr_dT :: real
  lqr_A :: matrix
  lqr_B :: matrix
  lqr_Q :: matrix
  lqr_R :: matrix
  lqr_K :: matrix
  lqr_S :: matrix
  lqr_E :: "complex list"

text \<open>The controller cell: constants, and one call of the solver.\<close>

definition lqr_cell :: "dlqr_solver \<Rightarrow> lqr_globals" where
  "lqr_cell dlqr =
     (let dT = 0.02;
          A = [[1, dT, 0, 0],
               [0, 1, - 0.014107, 0],
               [0, 0, 1, dT],
               [0.000031, 0.000019, 0.315099, 0.999998]];
          B = [[0], [0.195111], [0], [- 0.292548]];
          Q = np_diag [125, 50, 1200, 25];
          R = np_diag [1.5]
      in case dlqr A B Q R of (K, S, E) \<Rightarrow>
           \<lparr> lqr_dT = dT, lqr_A = A, lqr_B = B, lqr_Q = Q, lqr_R = R,
              lqr_K = K, lqr_S = S, lqr_E = E \<rparr>)"

text \<open>
  Model fit and controller synthesis as the notebook runs them: the fitting cell on
  the collected samples, then the controller cell. The result is what the first
  prints and what the second binds.
\<close>

definition fit_and_synthesise ::
  "ols \<Rightarrow> dlqr_solver \<Rightarrow> sample list \<Rightarrow> (column \<times> ols_results) list \<times> lqr_globals" where
  "fit_and_synthesise OLS_fit dlqr samples = (fit_cell OLS_fit samples, lqr_cell dlqr)"

text \<open>
  Shapes and definiteness of matrices: \<open>M\<close> has \<open>r\<close> rows of \<open>c\<close> entries; the
  quadratic form \<open>v\<^sup>T M v\<close>; a symmetric matrix whose form is nowhere negative.
\<close>

definition has_shape :: "matrix \<Rightarrow> nat \<times> nat \<Rightarrow> bool" where
  "has_shape M rc = (length M = fst rc \<and> list_all (\<lambda>row. length row = snd rc) M)"

definition quadratic_form :: "matrix \<Rightarrow> real list \<Rightarrow> real" where
  "quadratic_form M v = sum_list (map2 (\<lambda>vi row. vi * sum_list (map2 (*) row v)) v M)"

definition symmetric :: "matrix \<Rightarrow> bool" where
  "symmetric M = (\<forall>i < length M. \<forall>j < length M. M ! i ! j = M ! j ! i)"

definition positive_semidefinite :: "matrix \<Rightarrow> bool" where
  "positive_semidefinite M =
     (symmetric M \<and> (\<forall>v. length v = length M \<longrightarrow> 0 \<le> quadratic_form M v))"

text \<open>
  What the call of the solver relies on: for a system of \<open>n\<close> states and \<open>m\<close>
  inputs with conforming \<open>A\<close>, \<open>B\<close>, \<open>Q\<close>, \<open>R\<close>, the gain has \<open>m\<close> rows of \<open>n\<close>
  entries.
\<close>

definition gain_shape_contract :: "dlqr_solver \<Rightarrow> bool" where
  "gain_shape_contract dlqr =
     (\<forall>A B Q R n m. 0 < n \<and> 0 < m \<and> has_shape A (n, n) \<and> has_shape B (n, m) \<and>
        has_shape Q (n, n) \<and> has_shape R (m, m)
        \<longrightarrow> has_shape (fst (dlqr A B Q R)) (m, n))"

subsection \<open>Concrete data\<close>

text \<open>
  Two rows, the first inside the neighbourhood \<open>|theta| < 0.05\<close> and the second
  outside; a stand-in for the regression, which reads both tables handed to it
  (the sum of the outcome column, the number of predictor rows); and a solver
  that returns zero matrices of the right shapes.
\<close>

definition row_near :: sample where
  "row_near = \<lparr> r_x = 1, r_x_dot = 0, r_theta = 0, r_theta_dot = 0, r_input = 0,
                r_evolution_x = 2, r_evolution_x_dot = 3, r_evolution_theta_dot = 4 \<rparr>"

definition row_far :: sample where
  "row_far = \<lparr> r_x = 1, r_x_dot = 1, r_theta = 1 / 10, r_theta_dot = 1, r_input = 1,
               r_evolution_x = 7, r_evolution_x_dot = 8, r_evolution_theta_dot = 9 \<rparr>"

definition toy_ols :: ols where
  "toy_ols y X = \<lparr> params = [sum_list y, 0, 0, 0, 0], mse_resid = real (length X) \<rparr>"

definition toy_dlqr :: dlqr_solver where
  "toy_dlqr A B Q R =
     (replicate (length (hd B)) (replicate (length A) 0), replicate (length A) (replicate (length A) 0), [])"

section \<open>Properties of the sampling routines\<close>

lemma sampling_body_length:
  "length (fst (sampling_body env (samples, s, w))) = Suc (length samples)"
  by (simp add: sampling_body_def Let_def split: prod.splits)

lemma sampling_loop_length:
  "length (fst (sampling_loop env n st)) = length (fst st) + n"
proof (induction n arbitrary: st)
  case 0
  show ?case by simp
next
  case (Suc n)
  obtain samples s w where st: "st = (samples, s, w)" by (cases st) auto
  show ?case using Suc.IH [of "sampling_body env st"] sampling_body_length [of env samples s w]
    by (simp add: st)
qed

lemma generate_sample_of_system_dynamics_length:
  "length (fst (generate_sample_of_system_dynamics env nb_samples w)) = nb_samples"
proof -
  obtain s w1 where r: "env_reset env w = (s, w1)" by (cases "env_reset env w") auto
  obtain samples s' w' where l: "sampling_loop env nb_samples ([], s, w1) = (samples, s', w')"
    by (cases "sampling_loop env nb_samples ([], s, w1)") auto
  show ?thesis
    using sampling_loop_length [of env nb_samples "([], s, w1)"]
    by (simp add: generate_sample_of_system_dynamics_def r l)
qed

text \<open>
  The loop of \<open>generate_sample_of_system_dynamics\<close> only appends: after \<open>k\<close> passes
  the first rows are the ones already there.
\<close>

lemma sampling_body_prefix:
  "\<exists>row. fst (sampling_body env st) = fst st @ [row]"
  by (cases st) (simp add: sampling_body_def Let_def split: prod.splits)

lemma sampling_loop_prefix:
  "\<exists>rows. fst (sampling_loop env n st) = fst st @ rows \<and> length rows = n"
proof (induction n arbitrary: st)
  case 0
  show ?case by simp
next
  case (Suc n)
  obtain row where b: "fst (sampling_body env st) = fst st @ [row]"
    using sampling_body_prefix by blast
  obtain rows where r: "fst (sampling_loop env n (sampling_body env st))
      = fst (sampling_body env st) @ rows" "length rows = n"
    using Suc.IH by blast
  have "fst (sampling_loop env (Suc n) st) = fst st @ (row # rows)"
    using b r by simp
  moreover have "length (row # rows) = Suc n" using r by simp
  ultimately show ?case by blast
qed

lemma sampling_loop_add:
  "sampling_loop env (k + m) st = sampling_loop env m (sampling_loop env k st)"
  by (induction k arbitrary: st) simp_all

lemma sampling_state_Suc:
  "sampling_state env w (Suc k) = sampling_body env (sampling_state env w k)"
proof -
  obtain s w1 where r: "env_reset env w = (s, w1)" by (cases "env_reset env w") auto
  have "sampling_loop env (k + 1) ([], s, w1) = sampling_loop env 1 (sampling_loop env k ([], s, w1))"
    by (rule sampling_loop_add)
  then show ?thesis by (simp add: sampling_state_def r)
qed

lemma sampling_state_length: "length (fst (sampling_state env w k)) = k"
proof -
  obtain s w1 where r: "env_reset env w = (s, w1)" by (cases "env_reset env w") auto
  show ?thesis using sampling_loop_length [of env k "([], s, w1)"]
    by (simp add: sampling_state_def r)
qed

lemma sampling_body_row:
  "last (fst (sampling_body env (samples, s, w))) =
     (case randint02 env w of (a, w1) \<Rightarrow>
        (case env_step env a w1 of ((next_s, d, trunc), w2) \<Rightarrow>
           \<lparr> r_x = s0 s, r_x_dot = s1 s, r_theta = s2 s, r_theta_dot = s3 s,
              r_input = of_int (2 * a - 1),
              r_evolution_x = s0 next_s, r_evolution_x_dot = s1 next_s,
              r_evolution_theta_dot = s3 next_s \<rparr>))"
  by (simp add: sampling_body_def Let_def split: prod.splits)

lemma sampling_body_pre_state:
  "pre_state (last (fst (sampling_body env (samples, s, w)))) = s"
  unfolding sampling_body_row by (simp add: pre_state_def split: prod.splits)

lemma sampling_body_next_state:
  "fst (snd (sampling_body env (samples, s, w))) =
     (case randint02 env w of (a, w1) \<Rightarrow>
        (case env_step env a w1 of ((next_s, d, trunc), w2) \<Rightarrow>
           if d then fst (env_reset env w2) else next_s))"
  by (simp add: sampling_body_def Let_def split: prod.splits)

lemma generate_sample_fst:
  "fst (generate_sample_of_system_dynamics env nb_samples w) = fst (sampling_state env w nb_samples)"
  by (simp add: generate_sample_of_system_dynamics_def sampling_state_def split: prod.splits)

text \<open>Row \<open>k\<close> of the returned frame is the row appended by pass \<open>k\<close>.\<close>

lemma generate_sample_row:
  assumes "k < nb_samples"
  shows "fst (generate_sample_of_system_dynamics env nb_samples w) ! k =
           last (fst (sampling_state env w (Suc k)))"
proof -
  obtain s w1 where r: "env_reset env w = (s, w1)" by (cases "env_reset env w") auto
  define stk where "stk = sampling_loop env (Suc k) ([], s, w1)"
  obtain m where m: "nb_samples = Suc k + m" using assms by (metis less_iff_Suc_add add_Suc)
  have fin: "sampling_loop env nb_samples ([], s, w1) = sampling_loop env m stk"
    unfolding m stk_def by (rule sampling_loop_add)
  obtain rows where rows: "fst (sampling_loop env m stk) = fst stk @ rows"
    using sampling_loop_prefix by blast
  have len: "length (fst stk) = Suc k"
    using sampling_loop_length [of env "Suc k" "([], s, w1)"] by (simp add: stk_def)
  have "fst (generate_sample_of_system_dynamics env nb_samples w) = fst stk @ rows"
    using fin rows by (simp add: generate_sample_fst sampling_state_def r)
  then have "fst (generate_sample_of_system_dynamics env nb_samples w) ! k = fst stk ! k"
    using len by (simp add: nth_append)
  also have "\<dots> = last (fst stk)"
    using len by (metis diff_Suc_1 last_conv_nth length_0_conv nat.distinct(1))
  finally show ?thesis by (simp add: sampling_state_def r stk_def)
qed

text \<open>
  In \<open>generate_sample_of_system_dynamics\<close> each row records as pre-step state the
  loop variable \<open>s\<close> of its pass, and the next row records the fresh reset
  observation when the step terminated the episode and the step's next state
  otherwise.
\<close>

lemma generate_sample_restarts:
  assumes "Suc k < nb_samples"
    and "sampling_state env w k = (samples, s, wk)"
    and "randint02 env wk = (a, w1)"
    and "env_step env a w1 = ((next_s, d, trunc), w2)"
  shows "pre_state (fst (generate_sample_of_system_dynamics env nb_samples w) ! k) = s"
    and "pre_state (fst (generate_sample_of_system_dynamics env nb_samples w) ! Suc k) =
           (if d then fst (env_reset env w2) else next_s)"
proof -
  have k: "k < nb_samples" using assms(1) by simp
  show "pre_state (fst (generate_sample_of_system_dynamics env nb_samples w) ! k) = s"
    using generate_sample_row [OF k, of env w] sampling_body_pre_state [of env samples s wk]
    by (simp add: sampling_state_Suc assms(2))
  obtain samples1 s1' wk1 where st1: "sampling_state env w (Suc k) = (samples1, s1', wk1)"
    by (cases "sampling_state env w (Suc k)") auto
  have "s1' = (if d then fst (env_reset env w2) else next_s)"
    using sampling_body_next_state [of env samples s wk] st1
    by (simp add: sampling_state_Suc assms(2,3,4))
  moreover have "pre_state (fst (generate_sample_of_system_dynamics env nb_samples w) ! Suc k) = s1'"
    using generate_sample_row [OF assms(1), of env w] sampling_body_pre_state [of env samples1 s1' wk1]
    by (simp add: sampling_state_Suc [of env w "Suc k"] st1)
  ultimately show "pre_state (fst (generate_sample_of_system_dynamics env nb_samples w) ! Suc k) =
           (if d then fst (env_reset env w2) else next_s)" by simp
qed

text \<open>
  In \<open>generate_sample_of_system_dynamics_realistic\<close> the first pass through the
  loop body ends the function: whatever \<open>nb_samples \<ge> 1\<close> is, a returned frame has
  one row.
\<close>

lemma realistic_body_returns:
  "realistic_body env (samples, s, w) = Inr r \<Longrightarrow>
     \<exists>row w'. r = Return (samples @ [row], w')"
  by (auto simp: realistic_body_def bnd_def Let_def
      split: prod.splits sum.splits if_splits)

lemma realistic_returns_one_row:
  assumes "generate_sample_of_system_dynamics_realistic imported env (Suc n) w = Inr (df, w')"
  shows "\<exists>row. df = Some [row]"
proof -
  obtain s w1 where r: "renv_reset env w = Inr (s, w1)"
    using assms by (auto simp: generate_sample_of_system_dynamics_realistic_def bnd_def split: sum.splits)
  have i: "imported"
    using assms r by (auto simp: generate_sample_of_system_dynamics_realistic_def bnd_def split: if_splits)
  show ?thesis
  proof (cases "realistic_body env ([], s, w1)")
    case (Inl e)
    then show ?thesis using assms r i
      by (simp add: generate_sample_of_system_dynamics_realistic_def bnd_def)
  next
    case (Inr b)
    from realistic_body_returns [OF Inr] obtain row w2 where b: "b = Return ([row], w2)"
      by auto
    show ?thesis using assms r i Inr b
      by (auto simp: generate_sample_of_system_dynamics_realistic_def bnd_def)
  qed
qed

lemma realistic_without_tqdm:
  "renv_reset env w = Inr (s, w1) \<Longrightarrow>
     generate_sample_of_system_dynamics_realistic False env nb_samples w = Inl NameError"
  by (simp add: generate_sample_of_system_dynamics_realistic_def bnd_def)

lemma EnvRealistic_reset_raises: "fst (EnvRealistic_reset self wd) = Inl TypeError"
  by (simp add: EnvRealistic_reset_def)

text \<open>
  C1. Claim: for every environment and every \<open>nb_samples \<ge> 1\<close>, both sampling
  routines return a data frame of exactly \<open>nb_samples\<close> rows. The code of
  \<open>generate_sample_of_system_dynamics_realistic\<close> does not: asked for two samples
  from an environment whose episodes never end, with \<open>tqdm\<close> imported it returns
  after the first pass through its loop, with a frame of one row and after a
  single call of \<open>env.step\<close>; and without the import, as in the notebook that
  defines it, it raises \<open>NameError\<close> and returns no frame.
  (\<open>generate_sample_of_system_dynamics\<close> does return \<open>nb_samples\<close> rows:
  \<open>generate_sample_of_system_dynamics_length\<close>.)
\<close>

theorem realistic_sampler_two_requested_one_returned:
  "generate_sample_of_system_dynamics_realistic True steady_renv 2 0 =
     Inr (Some [\<lparr> r_x = 0, r_x_dot = 0, r_theta = 0, r_theta_dot = 0, r_input = 1,
                   r_evolution_x = 1, r_evolution_x_dot = 0, r_evolution_theta_dot = 0 \<rparr>], 1)
   \<and> generate_sample_of_system_dynamics_realistic False steady_renv 2 0 = Inl NameError"
  by (simp add: generate_sample_of_system_dynamics_realistic_def steady_renv_def
      realistic_body_def bnd_def py_getitem_def action_space_def subscript_def
      numeral_2_eq_2)

text \<open>
  C2. Claim: in both sampling routines, when an episode terminates the environment
  is restarted and the next recorded pre-step state is the fresh reset observation.
  In \<open>generate_sample_of_system_dynamics_realistic\<close> no next pre-step state is ever
  recorded: asked for two samples from an environment whose first step ends the
  episode, with \<open>tqdm\<close> imported it resets the environment a second time (the
  world counts two resets) and returns the one row of the first pass; the fresh
  reset observation, of position 1, is in no row. Without the import it raises
  \<open>NameError\<close> and records nothing. \<open>generate_sample_of_system_dynamics\<close> on the
  same environment records the fresh reset observation as the pre-step state of
  its second row.
\<close>

theorem realistic_sampler_records_no_state_after_restart:
  "generate_sample_of_system_dynamics_realistic True falling_renv 2 0 =
     Inr (Some [\<lparr> r_x = 0, r_x_dot = 0, r_theta = 0, r_theta_dot = 0, r_input = 1,
                   r_evolution_x = 9, r_evolution_x_dot = 0, r_evolution_theta_dot = 0 \<rparr>], 2)
   \<and> generate_sample_of_system_dynamics_realistic False falling_renv 2 0 = Inl NameError
   \<and> map pre_state (fst (generate_sample_of_system_dynamics falling_genv 2 0)) =
       [\<lparr> s0 = 0, s1 = 0, s2 = 0, s3 = 0 \<rparr>, \<lparr> s0 = 1, s1 = 0, s2 = 0, s3 = 0 \<rparr>]"
  by (simp add: generate_sample_of_system_dynamics_realistic_def falling_renv_def
      realistic_body_def bnd_def py_getitem_def action_space_def subscript_def
      generate_sample_of_system_dynamics_def falling_genv_def sampling_body_def
      pre_state_def numeral_2_eq_2)

section \<open>Properties of the description editor\<close>

declare pop_trailing_blank.simps [simp del]

lemma pendulum_urdf_length: "length pendulum_urdf = 2567"
  by (simp add: pendulum_urdf_def)

lemma is_space_line_feed: "is_space (CHR 0x0A)"
  by (simp add: is_space_def)

lemma universal_newlines_blank:
  "\<forall>c \<in> set s. is_space c \<Longrightarrow> \<forall>c \<in> set (universal_newlines s). is_space c"
  by (induction s rule: universal_newlines.induct) (auto simp: is_space_line_feed)

lemma split_lines_blank:
  "\<forall>c \<in> set cur. is_space c \<Longrightarrow> \<forall>c \<in> set s. is_space c \<Longrightarrow>
     \<forall>l \<in> set (split_lines cur s). \<forall>c \<in> set l. is_space c"
proof (induction s arbitrary: cur)
  case Nil
  then show ?case by simp
next
  case (Cons a s)
  show ?case
  proof (cases "a = CHR 0x0A")
    case True
    have "\<forall>l \<in> set (split_lines [] s). \<forall>c \<in> set l. is_space c"
      using Cons.IH [of "[]"] Cons.prems by simp
    then show ?thesis using True Cons.prems by simp
  next
    case False
    have "\<forall>l \<in> set (split_lines (cur @ [a]) s). \<forall>c \<in> set l. is_space c"
      using Cons.IH [of "cur @ [a]"] Cons.prems by simp
    then show ?thesis using False by simp
  qed
qed

lemma readlines_blank:
  assumes "\<forall>c \<in> set content. is_space c"
  shows "\<forall>l \<in> set (readlines content). \<forall>c \<in> set l. is_space c"
  unfolding readlines_def
  by (rule split_lines_blank) (simp_all add: universal_newlines_blank [OF assms])

lemma strip_blank:
  assumes "\<forall>c \<in> set l. is_space c"
  shows "strip l = []"
proof -
  have d: "dropWhile is_space l = []" using assms by simp
  show ?thesis unfolding strip_def d by simp
qed

lemma pop_trailing_blank_all_blank:
  "\<forall>l \<in> set ls. \<forall>c \<in> set l. is_space c \<Longrightarrow> pop_trailing_blank ls = []"
proof (induction ls rule: rev_induct)
  case Nil
  show ?case by (simp add: pop_trailing_blank.simps)
next
  case (snoc l ls)
  have "strip l = []" using snoc.prems by (simp add: strip_blank)
  moreover have "pop_trailing_blank ls = []" using snoc by simp
  ultimately show ?case by (simp add: pop_trailing_blank.simps [of "ls @ [l]"])
qed

text \<open>
  C8. \<open>addpendulum_urdf\<close> recovers from nothing: when the input file is missing the
  \<open>FileNotFoundError\<close> of \<open>open\<close> is its outcome, and when the input file is empty
  or holds only blank lines (every character is whitespace) the \<open>IndexError\<close> of
  \<open>urdf_data[-1]\<close> is its outcome; in both cases the file system is left as it
  was, so no output file is written. An exception of opening the output file for
  writing is its outcome as well.
\<close>

theorem addpendulum_urdf_raises:
  "(fs (resolve os urdf_file_path) = None \<longrightarrow>
      addpendulum_urdf os fs urdf_file_path save_to_path = (Inl FileNotFoundError, fs)) \<and>
   (\<forall>content. fs (resolve os urdf_file_path) = Some content \<and> (\<forall>c \<in> set content. is_space c) \<longrightarrow>
      addpendulum_urdf os fs urdf_file_path save_to_path = (Inl IndexError, fs)) \<and>
   (\<forall>e. write_error os save_to_path = Some e \<longrightarrow>
      (\<exists>e'. addpendulum_urdf os fs urdf_file_path save_to_path = (Inl e', fs)))"
proof (intro conjI impI allI)
  assume "fs (resolve os urdf_file_path) = None"
  then show "addpendulum_urdf os fs urdf_file_path save_to_path = (Inl FileNotFoundError, fs)"
    by (simp add: addpendulum_urdf_def)
next
  fix content
  assume a: "fs (resolve os urdf_file_path) = Some content \<and> (\<forall>c \<in> set content. is_space c)"
  then have "pop_trailing_blank (readlines content) = []"
    using pop_trailing_blank_all_blank [OF readlines_blank] by blast
  then show "addpendulum_urdf os fs urdf_file_path save_to_path = (Inl IndexError, fs)"
    using a by (simp add: addpendulum_urdf_def py_getitem_def)
next
  fix e
  assume "write_error os save_to_path = Some e"
  then show "\<exists>e'. addpendulum_urdf os fs urdf_file_path save_to_path = (Inl e', fs)"
    by (simp add: addpendulum_urdf_def Let_def split: option.splits sum.splits)
qed

theorem addpendulum_urdf_raises_witness:
  "addpendulum_urdf plain_os (Map.empty(''in.urdf'' \<mapsto> ''  '' @ [CHR 0x0A, CHR 0x0A])) ''in.urdf'' ''out.urdf''
     = (Inl IndexError, Map.empty(''in.urdf'' \<mapsto> ''  '' @ [CHR 0x0A, CHR 0x0A])) \<and>
   addpendulum_urdf plain_os (Map.empty(''in.urdf'' \<mapsto> [])) ''in.urdf'' ''out.urdf''
     = (Inl IndexError, Map.empty(''in.urdf'' \<mapsto> [])) \<and>
   addpendulum_urdf plain_os Map.empty ''in.urdf'' ''out.urdf'' = (Inl FileNotFoundError, Map.empty) \<and>
   addpendulum_urdf (plain_os \<lparr> write_error := (\<lambda>p. Some PermissionError) \<rparr>) small_fs
       ''in.urdf'' ''out.urdf'' = (Inl PermissionError, small_fs)"
proof -
  have w: "addpendulum_urdf (plain_os \<lparr> write_error := (\<lambda>p. Some PermissionError) \<rparr>) small_fs
       ''in.urdf'' ''out.urdf'' = (Inl PermissionError, small_fs)"
    by (simp add: addpendulum_urdf_def plain_os_def small_fs_def small_urdf_def readlines_def
        pop_trailing_blank.simps strip_def is_space_def py_getitem_def)
  show ?thesis
    using addpendulum_urdf_raises [of "Map.empty(''in.urdf'' \<mapsto> ''  '' @ [CHR 0x0A, CHR 0x0A])"
        plain_os "''in.urdf''" "''out.urdf''"]
      addpendulum_urdf_raises [of "Map.empty(''in.urdf'' \<mapsto> [])" plain_os "''in.urdf''" "''out.urdf''"]
      addpendulum_urdf_raises [of "Map.empty" plain_os "''in.urdf''" "''out.urdf''"]
      w
    by (simp add: is_space_def plain_os_def)
qed

lemma small_edit:
  "addpendulum_urdf plain_os small_fs ''in.urdf'' save_to_path =
     (Inr (), small_fs(drop_dot_slash save_to_path \<mapsto>
        ''<robot>'' @ [CHR 0x0A] @ pendulum_urdf @ ''</robot>'' @ [CHR 0x0A]))"
  by (simp add: addpendulum_urdf_def plain_os_def small_fs_def small_urdf_def readlines_def
      pop_trailing_blank.simps strip_def is_space_def py_getitem_def)

lemma pendulum_urdf_not_empty: "pendulum_urdf \<noteq> []"
  using pendulum_urdf_length by auto

text \<open>
  C10, as claimed: for every pair of paths with \<open>save_to_path\<close> different from
  \<open>urdf_file_path\<close>, the content of the source file is the same before and after
  the call. It is not: \<open>./in.urdf\<close> and \<open>in.urdf\<close> are different paths of one
  file, and the call that reads the one and saves to the other overwrites the
  source.
\<close>

theorem addpendulum_urdf_overwrites_source_by_other_name:
  "''./in.urdf'' \<noteq> ''in.urdf'' \<and>
   fst (addpendulum_urdf plain_os small_fs ''in.urdf'' ''./in.urdf'') = Inr () \<and>
   snd (addpendulum_urdf plain_os small_fs ''in.urdf'' ''./in.urdf'') (resolve plain_os ''in.urdf'')
     \<noteq> small_fs (resolve plain_os ''in.urdf'')"
  using pendulum_urdf_not_empty
  by (simp add: small_edit) (simp add: plain_os_def small_fs_def small_urdf_def)

text \<open>
  C10, amended. \<open>addpendulum_urdf\<close> writes to the file \<open>save_to_path\<close> resolves to
  and to no other: every other file is after the call what it was before, in
  particular the source file when the two paths resolve to different files; and
  when the call succeeds there is a file at \<open>save_to_path\<close>.
\<close>

theorem addpendulum_urdf_frame:
  "(\<forall>f. f \<noteq> resolve os save_to_path \<longrightarrow>
       snd (addpendulum_urdf os fs urdf_file_path save_to_path) f = fs f) \<and>
   (resolve os urdf_file_path \<noteq> resolve os save_to_path \<longrightarrow>
       snd (addpendulum_urdf os fs urdf_file_path save_to_path) (resolve os urdf_file_path)
         = fs (resolve os urdf_file_path)) \<and>
   (fst (addpendulum_urdf os fs urdf_file_path save_to_path) = Inr () \<longrightarrow>
       snd (addpendulum_urdf os fs urdf_file_path save_to_path) (resolve os save_to_path) \<noteq> None)"
  by (simp add: addpendulum_urdf_def Let_def split: option.splits sum.splits)

theorem addpendulum_urdf_frame_witness:
  "resolve plain_os ''in.urdf'' \<noteq> resolve plain_os ''./out.urdf'' \<and>
   snd (addpendulum_urdf plain_os small_fs ''in.urdf'' ''./out.urdf'') (resolve plain_os ''in.urdf'')
     = Some small_urdf \<and>
   fst (addpendulum_urdf plain_os small_fs ''in.urdf'' ''./out.urdf'') = Inr () \<and>
   snd (addpendulum_urdf plain_os small_fs ''in.urdf'' ''./out.urdf'') ''out.urdf''
     = Some (''<robot>'' @ [CHR 0x0A] @ pendulum_urdf @ ''</robot>'' @ [CHR 0x0A])"
  using addpendulum_urdf_frame [of plain_os "''./out.urdf''" small_fs "''in.urdf''"]
  by (simp add: small_edit) (simp add: plain_os_def small_fs_def)

section \<open>Properties of the joint control\<close>

lemma clip_limit: "fmin (fmax v (Fin (- 50))) (Fin 50) = NaN \<or> within_limit (fmin (fmax v (Fin (- 50))) (Fin 50))"
  by (cases v) (auto simp: within_limit_def)

lemma clip_nan: "fmin (fmax v (Fin (- 50))) (Fin 50) = NaN \<longleftrightarrow> v = NaN"
  by (cases v) simp_all

lemma np_clip_limit:
  "x \<in> set (np_clip t (Fin (- 50)) (Fin 50)) \<Longrightarrow> x = NaN \<or> within_limit x"
  using clip_limit by (auto simp: np_clip_def)

lemma py_getitem_in_set: "py_getitem xs i = Inr v \<Longrightarrow> v \<in> set xs"
  by (auto simp: py_getitem_def split: if_splits)

lemma apply_torques_invariant:
  assumes "\<forall>x \<in> set tau. P x"
    and "\<forall>c \<in> set (snd wd). P (snd c)"
  shows "\<forall>c \<in> set (snd (snd (apply_torques pb tau idxs wd))). P (snd c)"
  using assms(2)
proof (induction idxs arbitrary: wd)
  case Nil
  then show ?case by simp
next
  case (Cons i rest)
  show ?case
  proof (cases "py_getitem tau (int i)")
    case (Inl e)
    have "apply_torques pb tau (i # rest) wd = (Inl e, wd)" by (simp add: Inl)
    then show ?thesis using Cons.prems by simp
  next
    case (Inr force)
    have "force \<in> set tau" using Inr by (rule py_getitem_in_set)
    then have f: "P force" using assms(1) by blast
    define wd1 where "wd1 = (setJointMotorControl2_torque pb (int i) force (fst wd), snd wd @ [(int i, force)])"
    have "\<forall>c \<in> set (snd wd1). P (snd c)"
      using Cons.prems f by (auto simp: wd1_def)
    then have "\<forall>c \<in> set (snd (snd (apply_torques pb tau rest wd1))). P (snd c)"
      by (rule Cons.IH)
    moreover have "apply_torques pb tau (i # rest) wd = apply_torques pb tau rest wd1"
      by (simp add: Inr wd1_def)
    ultimately show ?thesis by simp
  qed
qed

lemma control_body_world_cases:
  "world_after (control_body pb nq Kp Kd q_desired v_desired eps wd) = wd \<or>
   (\<exists>t. snd (world_after (control_body pb nq Kp Kd q_desired v_desired eps wd)) =
        snd (snd (apply_torques pb (np_clip t (Fin (- 50)) (Fin 50)) [0..<nq] wd)))"
proof (cases "reached (map fst (map (\<lambda>i. getJointState pb (fst wd) (int i)) [0..<nq])) q_desired
         (map snd (map (\<lambda>i. getJointState pb (fst wd) (int i)) [0..<nq])) v_desired eps")
  case (Inl e)
  then show ?thesis by (simp add: control_body_def)
next
  case (Inr b)
  show ?thesis
  proof (cases b)
    case True
    then show ?thesis using Inr by (simp add: control_body_def)
  next
    case False
    show ?thesis
    proof (cases "pd_control q_desired v_desired
         (map fst (map (\<lambda>i. getJointState pb (fst wd) (int i)) [0..<nq]))
         (map snd (map (\<lambda>i. getJointState pb (fst wd) (int i)) [0..<nq])) Kp Kd")
      case (Inl e)
      then show ?thesis using Inr False by (simp add: control_body_def)
    next
      case t: (Inr t)
      obtain r wd' where a: "apply_torques pb (np_clip t (Fin (- 50)) (Fin 50)) [0..<nq] wd = (r, wd')"
        by (cases "apply_torques pb (np_clip t (Fin (- 50)) (Fin 50)) [0..<nq] wd") auto
      have "snd (world_after (control_body pb nq Kp Kd q_desired v_desired eps wd)) = snd wd'"
        using Inr False t a by (cases r) (simp_all add: control_body_def)
      then have "snd (world_after (control_body pb nq Kp Kd q_desired v_desired eps wd)) =
        snd (snd (apply_torques pb (np_clip t (Fin (- 50)) (Fin 50)) [0..<nq] wd))" by (simp add: a)
      then show ?thesis by blast
    qed
  qed
qed

lemma control_body_limit:
  assumes "\<forall>c \<in> set (snd wd). snd c = NaN \<or> within_limit (snd c)"
  shows "\<forall>c \<in> set (snd (world_after (control_body pb nq Kp Kd q_desired v_desired eps wd))).
           snd c = NaN \<or> within_limit (snd c)"
proof -
  have tq: "\<forall>c \<in> set (snd (snd (apply_torques pb (np_clip t (Fin (- 50)) (Fin 50)) [0..<nq] wd))).
              snd c = NaN \<or> within_limit (snd c)" for t
  proof (rule apply_torques_invariant [where P = "\<lambda>x. x = NaN \<or> within_limit x"])
    show "\<forall>x\<in>set (np_clip t (Fin (- 50)) (Fin 50)). x = NaN \<or> within_limit x"
      using np_clip_limit by blast
    show "\<forall>c \<in> set (snd wd). snd c = NaN \<or> within_limit (snd c)" by (rule assms)
  qed
  from control_body_world_cases [of pb nq Kp Kd q_desired v_desired eps wd]
  show ?thesis
  proof
    assume "world_after (control_body pb nq Kp Kd q_desired v_desired eps wd) = wd"
    then show ?thesis using assms by simp
  next
    assume "\<exists>t. snd (world_after (control_body pb nq Kp Kd q_desired v_desired eps wd)) =
        snd (snd (apply_torques pb (np_clip t (Fin (- 50)) (Fin 50)) [0..<nq] wd))"
    then obtain t where "snd (world_after (control_body pb nq Kp Kd q_desired v_desired eps wd)) =
        snd (snd (apply_torques pb (np_clip t (Fin (- 50)) (Fin 50)) [0..<nq] wd))" by blast
    then show ?thesis using tq [of t] by simp
  qed
qed

lemma for_range_invariant:
  assumes "\<And>st. P st \<Longrightarrow> P (world_after (body st))"
    and "P st"
  shows "P (world_after (for_range body n st))"
  using assms(2)
proof (induction n arbitrary: st)
  case 0
  then show ?case by simp
next
  case (Suc n)
  show ?case
  proof (cases "body st")
    case (Inl a)
    then show ?thesis using assms(1) [OF Suc.prems] by simp
  next
    case (Inr b)
    show ?thesis
    proof (cases b)
      case (Continue st')
      then have "P st'" using assms(1) [OF Suc.prems] Inr by simp
      then show ?thesis using Suc.IH Inr Continue by simp
    next
      case (Return r)
      then show ?thesis using assms(1) [OF Suc.prems] Inr by simp
    qed
  qed
qed

lemma control_world:
  "snd (control_to_desired_configuration pb q_desired v_desired eps wd) =
     world_after (for_range
       (control_body pb (getNumJoints pb (fst wd))
          (map (fmul (Fin 20)) (replicate (getNumJoints pb (fst wd)) (Fin 1)))
          (map (fmul (Fin 0.05)) (map (fmul (Fin 20)) (replicate (getNumJoints pb (fst wd)) (Fin 1))))
          q_desired v_desired eps) 1000 wd)"
proof -
  define body where "body = control_body pb (getNumJoints pb (fst wd))
          (map (fmul (Fin 20)) (replicate (getNumJoints pb (fst wd)) (Fin 1)))
          (map (fmul (Fin 0.05)) (map (fmul (Fin 20)) (replicate (getNumJoints pb (fst wd)) (Fin 1))))
          q_desired v_desired eps"
  have "snd (control_to_desired_configuration pb q_desired v_desired eps wd) =
     world_after (for_range body 1000 wd)"
    unfolding control_to_desired_configuration_def Let_def body_def [symmetric]
    by (cases "for_range body 1000 wd" rule: world_after.cases) simp_all
  then show ?thesis by (simp only: body_def)
qed

lemma control_preserves_limit:
  assumes "\<forall>c \<in> set (snd wd). snd c = NaN \<or> within_limit (snd c)"
  shows "\<forall>c \<in> set (snd (snd (control_to_desired_configuration pb q_desired v_desired eps wd))).
           snd c = NaN \<or> within_limit (snd c)"
  unfolding control_world
proof (rule for_range_invariant [where P = "\<lambda>wd. \<forall>c \<in> set (snd wd). snd c = NaN \<or> within_limit (snd c)"])
  show "\<forall>c \<in> set (snd wd). snd c = NaN \<or> within_limit (snd c)" by (rule assms)
next
  fix st :: "'a world"
  assume "\<forall>c \<in> set (snd st). snd c = NaN \<or> within_limit (snd c)"
  then show "\<forall>c\<in>set (snd (world_after (control_body pb (getNumJoints pb (fst wd))
          (map (fmul (Fin 20)) (replicate (getNumJoints pb (fst wd)) (Fin 1)))
          (map (fmul (Fin 0.05)) (map (fmul (Fin 20)) (replicate (getNumJoints pb (fst wd)) (Fin 1))))
          q_desired v_desired eps st))). snd c = NaN \<or> within_limit (snd c)"
    by (rule control_body_limit)
qed

lemma for_range_numeral:
  "for_range body (numeral k) st =
     (case body st of
        Inl e \<Rightarrow> Inl e
      | Inr (Return r) \<Rightarrow> Inr (Return r)
      | Inr (Continue st') \<Rightarrow> for_range body (pred_numeral k) st')"
  by (simp add: numeral_eq_Suc)

lemmas control_eval = control_body_def reached_def pd_control_def np_broadcast_def np_max_def
  np_clip_def py_getitem_def bnd_def default_eps_def fsub_def signed_inf_def

lemma toy_body_first:
  "control_body toy_pybullet (Suc 0) [Fin 20] [Fin 1] [Fin 5] [Fin 0] default_eps ((Fin 0, Fin 0), []) =
     Inr (Continue ((Fin (5 / 2), Fin 0), [(0, Fin 50)]))"
  by (simp add: control_eval toy_pybullet_def)

lemma toy_body_second:
  "control_body toy_pybullet (Suc 0) [Fin 20] [Fin 1] [Fin 5] [Fin 0] default_eps
       ((Fin (5 / 2), Fin 0), [(0, Fin 50)]) =
     Inr (Continue ((Fin 5, Fin 0), [(0, Fin 50), (0, Fin 50)]))"
  by (simp add: control_eval toy_pybullet_def)

lemma toy_body_third:
  "control_body toy_pybullet (Suc 0) [Fin 20] [Fin 1] [Fin 5] [Fin 0] default_eps
       ((Fin 5, Fin 0), [(0, Fin 50), (0, Fin 50)]) =
     Inr (Return ((Fin 5, Fin 0), [(0, Fin 50), (0, Fin 50)]))"
  by (simp add: control_eval toy_pybullet_def)

lemma toy_control_run:
  "control_to_desired_configuration toy_pybullet [Fin 5] [Fin 0] default_eps ((Fin 0, Fin 0), []) =
     (Inr (), (Fin 5, Fin 0), [(0, Fin 50), (0, Fin 50)])"
proof -
  have nq: "getNumJoints toy_pybullet s = 1" for s by (simp add: toy_pybullet_def)
  show ?thesis
    by (simp add: control_to_desired_configuration_def nq for_range_numeral Let_def
        toy_body_first toy_body_second toy_body_third)
qed

lemma glitch_body_first:
  "control_body glitch_pybullet (Suc 0) [Fin 20] [Fin 1] [Fin 0] [Fin 0] default_eps (0, []) =
     Inr (Continue (Suc 0, [(0, NaN)]))"
  by (simp add: control_eval glitch_pybullet_def)

lemma glitch_body_second:
  "control_body glitch_pybullet (Suc 0) [Fin 20] [Fin 1] [Fin 0] [Fin 0] default_eps (Suc 0, [(0, NaN)]) =
     Inr (Return (Suc 0, [(0, NaN)]))"
  by (simp add: control_eval glitch_pybullet_def)

lemma glitch_control_run:
  "control_to_desired_configuration glitch_pybullet [Fin 0] [Fin 0] default_eps (0, []) =
     (Inr (), Suc 0, [(0, NaN)])"
proof -
  have nq: "getNumJoints glitch_pybullet s = 1" for s by (simp add: glitch_pybullet_def)
  show ?thesis
    by (simp add: control_to_desired_configuration_def nq for_range_numeral Let_def
        glitch_body_first glitch_body_second)
qed

text \<open>
  C9, as claimed: for all measured joint states, every force passed to the
  torque-control call has \<open>|tau| <= 50\<close>. It has not when a measurement is
  not-a-number: the position error, the PD output and, since \<open>np.clip\<close> lets
  not-a-number through, the force are not-a-number, and the test that would end
  the loop is false on it. On the simulator whose first reading is not-a-number
  the one command issued carries that force, and \<open>|nan| <= 50\<close> is false.
\<close>

theorem torque_command_not_a_number:
  "snd (snd (control_to_desired_configuration glitch_pybullet [Fin 0] [Fin 0] default_eps (0, [])))
     = [(0, NaN)] \<and>
   \<not> within_limit NaN"
  by (simp add: glitch_control_run within_limit_def)

text \<open>
  C9, amended. Every torque command \<open>control_to_desired_configuration\<close> issues is
  not-a-number or bounded: whatever the simulator, the desired configuration and
  velocities and the tolerance, every force passed to the torque-control call
  during the call, on every pass through the loop and also when the call ends with
  an exception, is not-a-number or has \<open>|tau| <= 50\<close>.
\<close>

theorem torque_commands_bounded:
  "\<forall>c \<in> set (snd (snd (control_to_desired_configuration pb q_desired v_desired eps (sim, [])))).
     snd c = NaN \<or> within_limit (snd c)"
  using control_preserves_limit [of "(sim, [])" pb q_desired v_desired eps] by simp

theorem torque_commands_bounded_witness:
  "snd (snd (control_to_desired_configuration toy_pybullet [Fin 5] [Fin 0] default_eps ((Fin 0, Fin 0), [])))
     = [(0, Fin 50), (0, Fin 50)]
   \<and> within_limit (Fin 50) \<and> Fin 50 \<noteq> NaN"
  using torque_commands_bounded [of toy_pybullet "[Fin 5]" "[Fin 0]" default_eps "(Fin 0, Fin 0)"]
  by (simp add: toy_control_run)

lemma get_state_unpack:
  "length (getLinkState pb sim (pendulum_link self) True) \<noteq> 7 \<Longrightarrow>
     get_state pb self sim = Inl ValueError"
  by (simp add: get_state_def)

lemma get_state_documented:
  "documented_link_state pb \<Longrightarrow> get_state pb self sim = Inl ValueError"
  by (rule get_state_unpack) (simp add: documented_link_state_def)

lemma EnvRealistic_step_returned:
  assumes "EnvRealistic_step pb glob self action wd = (Inr (s, dead, truncated), self', wd')"
  shows "get_state pb self (fst wd') = Inr s"
    and "dead = flt (Fin (pi / 16)) (fabs (fst (snd (snd s))))"
    and "truncated = (timestep self + 1 = 1000)"
    and "timestep self' = timestep self + 1"
  using assms
  by (auto simp: EnvRealistic_step_def Let_def TIME_HORIZON_def
      split: option.splits prod.splits sum.splits if_splits)

lemma EnvRealistic_step_documented:
  assumes "documented_link_state pb"
  shows "fst (EnvRealistic_step pb glob self action wd) \<noteq> Inr r"
proof
  assume a: "fst (EnvRealistic_step pb glob self action wd) = Inr r"
  obtain s dead truncated where r: "r = (s, dead, truncated)" by (cases r) auto
  obtain self' wd' where "EnvRealistic_step pb glob self action wd = (Inr (s, dead, truncated), self', wd')"
    using a r by (cases "EnvRealistic_step pb glob self action wd") auto
  then have "get_state pb self (fst wd') = Inr s" by (rule EnvRealistic_step_returned(1))
  then show False using get_state_documented [OF assms] by simp
qed

text \<open>
  C4. Claim: for every action, \<open>EnvRealistic.step\<close> returns \<open>dead\<close> and
  \<open>truncated\<close> by the two conditions. The code computes the flags that way
  (\<open>EnvRealistic_step_returned\<close>) but never reaches them. The call of
  \<open>move_end_effector_along_trajectory\<close> names the global \<open>pendulum_joint\<close>, which no
  cell binds, where the line above reads the attribute \<open>self.pendulum_joint\<close>:
  whatever the simulator, the object and the action, the call of \<open>step\<close> raises
  \<open>NameError\<close>, with the step counter as it was. (Were the name bound,
  \<open>get_state\<close> would raise \<open>ValueError\<close> on the eight components of the link
  state: \<open>EnvRealistic_step_documented\<close>.)
\<close>

theorem EnvRealistic_step_raises:
  "EnvRealistic_step pb None self action wd = (Inl NameError, self, wd)"
  by (simp add: EnvRealistic_step_def Let_def)

section \<open>Properties of the model fit and the controller synthesis\<close>

lemma df_select_filter:
  "df_select df (map P (map f df)) = filter (\<lambda>r. P (f r)) df"
  by (induction df) (simp_all add: df_select_def)

lemma small_angle_samples_filter:
  "small_angle_samples samples = filter (\<lambda>r. \<bar>r_theta r\<bar> < 0.05) samples"
  unfolding small_angle_samples_def df_column_def
  by (simp only: df_select_filter get_col.simps)

lemma fit_cell_depends_on_neighbourhood:
  "small_angle_samples samples' = small_angle_samples samples \<Longrightarrow>
     fit_cell OLS_fit samples' = fit_cell OLS_fit samples"
  by (simp add: fit_cell_def)

lemma fit_cell_calls:
  "fit_cell OLS_fit samples =
     [(Col_evolution_x_dot,
         OLS_fit (df_column Col_evolution_x_dot (small_angle_samples samples))
                 (df_columns predictor_columns (small_angle_samples samples))),
      (Col_evolution_theta_dot,
         OLS_fit (df_column Col_evolution_theta_dot (small_angle_samples samples))
                 (df_columns predictor_columns (small_angle_samples samples))),
      (Col_evolution_x,
         OLS_fit (df_column Col_evolution_x (small_angle_samples samples))
                 (df_columns predictor_columns (small_angle_samples samples)))]"
  by (simp add: fit_cell_def outcomes_def Let_def)

lemma predictors_rows:
  "df_columns predictor_columns df =
     map (\<lambda>r. [r_x r, r_x_dot r, r_theta r, r_theta_dot r, r_input r]) df"
  by (simp add: df_columns_def predictor_columns_def)

lemma outcome_columns:
  "df_column Col_evolution_x_dot df = map r_evolution_x_dot df"
  "df_column Col_evolution_theta_dot df = map r_evolution_theta_dot df"
  "df_column Col_evolution_x df = map r_evolution_x df"
  by (simp_all add: df_column_def)

text \<open>
  The fit of an outcome depends on that outcome's column and on the predictors of
  the neighbourhood samples only: other samples with the same predictors and the
  same column give the same fit, whatever their other outcome columns hold.
\<close>

lemma fit_of_an_outcome_depends_on_its_column:
  assumes "out \<in> set outcomes"
    and "df_columns predictor_columns (small_angle_samples samples') =
           df_columns predictor_columns (small_angle_samples samples)"
    and "df_column out (small_angle_samples samples') = df_column out (small_angle_samples samples)"
  shows "map_of (fit_cell OLS_fit samples') out = map_of (fit_cell OLS_fit samples) out"
  using assms by (auto simp: fit_cell_calls outcomes_def)

text \<open>
  C5. The fitting cell uses exactly the neighbourhood samples. The table it fits on
  holds the collected rows whose recorded pre-step angle has \<open>|theta| < 0.05\<close>, in
  their order, and no others: a row is in it if and only if it was collected and
  satisfies the filter. What is handed to each of the three regressions, whatever
  the regression is, is the outcome column and the five predictor columns of
  exactly these rows. And two collections with the same rows inside the filter
  give the same fits, so that no row outside it influences a coefficient.
\<close>

theorem fit_uses_exactly_the_neighbourhood:
  "small_angle_samples samples = filter (\<lambda>r. \<bar>r_theta r\<bar> < 0.05) samples \<and>
   (r \<in> set (small_angle_samples samples) \<longleftrightarrow> r \<in> set samples \<and> \<bar>r_theta r\<bar> < 0.05) \<and>
   fit_cell OLS_fit samples =
     [(Col_evolution_x_dot,
         OLS_fit (map r_evolution_x_dot (filter (\<lambda>r. \<bar>r_theta r\<bar> < 0.05) samples))
                 (map (\<lambda>r. [r_x r, r_x_dot r, r_theta r, r_theta_dot r, r_input r])
                      (filter (\<lambda>r. \<bar>r_theta r\<bar> < 0.05) samples))),
      (Col_evolution_theta_dot,
         OLS_fit (map r_evolution_theta_dot (filter (\<lambda>r. \<bar>r_theta r\<bar> < 0.05) samples))
                 (map (\<lambda>r. [r_x r, r_x_dot r, r_theta r, r_theta_dot r, r_input r])
                      (filter (\<lambda>r. \<bar>r_theta r\<bar> < 0.05) samples))),
      (Col_evolution_x,
         OLS_fit (map r_evolution_x (filter (\<lambda>r. \<bar>r_theta r\<bar> < 0.05) samples))
                 (map (\<lambda>r. [r_x r, r_x_dot r, r_theta r, r_theta_dot r, r_input r])
                      (filter (\<lambda>r. \<bar>r_theta r\<bar> < 0.05) samples)))] \<and>
   (\<forall>samples'. filter (\<lambda>r. \<bar>r_theta r\<bar> < 0.05) samples' = filter (\<lambda>r. \<bar>r_theta r\<bar> < 0.05) samples
      \<longrightarrow> fit_cell OLS_fit samples' = fit_cell OLS_fit samples)"
proof (intro conjI allI impI)
  show "small_angle_samples samples = filter (\<lambda>r. \<bar>r_theta r\<bar> < 0.05) samples"
    by (rule small_angle_samples_filter)
  show "r \<in> set (small_angle_samples samples) \<longleftrightarrow> r \<in> set samples \<and> \<bar>r_theta r\<bar> < 0.05"
    by (simp add: small_angle_samples_filter)
  show "fit_cell OLS_fit samples =
     [(Col_evolution_x_dot,
         OLS_fit (map r_evolution_x_dot (filter (\<lambda>r. \<bar>r_theta r\<bar> < 0.05) samples))
                 (map (\<lambda>r. [r_x r, r_x_dot r, r_theta r, r_theta_dot r, r_input r])
                      (filter (\<lambda>r. \<bar>r_theta r\<bar> < 0.05) samples))),
      (Col_evolution_theta_dot,
         OLS_fit (map r_evolution_theta_dot (filter (\<lambda>r. \<bar>r_theta r\<bar> < 0.05) samples))
                 (map (\<lambda>r. [r_x r, r_x_dot r, r_theta r, r_theta_dot r, r_input r])
                      (filter (\<lambda>r. \<bar>r_theta r\<bar> < 0.05) samples))),
      (Col_evolution_x,
         OLS_fit (map r_evolution_x (filter (\<lambda>r. \<bar>r_theta r\<bar> < 0.05) samples))
                 (map (\<lambda>r. [r_x r, r_x_dot r, r_theta r, r_theta_dot r, r_input r])
                      (filter (\<lambda>r. \<bar>r_theta r\<bar> < 0.05) samples)))]"
    unfolding fit_cell_calls predictors_rows outcome_columns
    by (simp only: small_angle_samples_filter)
next
  fix samples'
  assume "filter (\<lambda>r. \<bar>r_theta r\<bar> < 0.05) samples' = filter (\<lambda>r. \<bar>r_theta r\<bar> < 0.05) samples"
  then have "small_angle_samples samples' = small_angle_samples samples"
    by (simp only: small_angle_samples_filter)
  then show "fit_cell OLS_fit samples' = fit_cell OLS_fit samples"
    by (rule fit_cell_depends_on_neighbourhood)
qed

theorem fit_uses_exactly_the_neighbourhood_witness:
  "small_angle_samples [row_far, row_near, row_far] = [row_near] \<and>
   fit_cell toy_ols [row_far, row_near, row_far] = fit_cell toy_ols [row_near] \<and>
   fit_cell toy_ols [row_far, row_near, row_far] =
     [(Col_evolution_x_dot, toy_ols [3] [[1, 0, 0, 0, 0]]),
      (Col_evolution_theta_dot, toy_ols [4] [[1, 0, 0, 0, 0]]),
      (Col_evolution_x, toy_ols [2] [[1, 0, 0, 0, 0]])]"
proof -
  have f: "filter (\<lambda>r. \<bar>r_theta r\<bar> < 0.05) [row_far, row_near, row_far] =
           filter (\<lambda>r. \<bar>r_theta r\<bar> < 0.05) [row_near]"
    by (simp add: row_far_def row_near_def)
  have n: "filter (\<lambda>r. \<bar>r_theta r\<bar> < 0.05) [row_far, row_near, row_far] = [row_near]"
    by (simp add: row_far_def row_near_def)
  have e: "fit_cell toy_ols [row_far, row_near, row_far] = fit_cell toy_ols [row_near]"
    using fit_uses_exactly_the_neighbourhood [of "[row_near]" row_near toy_ols] f by blast
  note t = fit_uses_exactly_the_neighbourhood [of "[row_far, row_near, row_far]" row_near toy_ols]
  have s: "small_angle_samples [row_far, row_near, row_far] = [row_near]"
    using t [THEN conjunct1] by (simp only: n)
  have c: "fit_cell toy_ols [row_far, row_near, row_far] =
     [(Col_evolution_x_dot, toy_ols [3] [[1, 0, 0, 0, 0]]),
      (Col_evolution_theta_dot, toy_ols [4] [[1, 0, 0, 0, 0]]),
      (Col_evolution_x, toy_ols [2] [[1, 0, 0, 0, 0]])]"
    using t [THEN conjunct2, THEN conjunct2, THEN conjunct1] unfolding n
    by (simp add: row_near_def)
  show ?thesis using s e c by (simp only: simp_thms)
qed

lemma lqr_cell_fields:
  "lqr_A (lqr_cell dlqr) = [[1, 0.02, 0, 0], [0, 1, - 0.014107, 0], [0, 0, 1, 0.02],
                            [0.000031, 0.000019, 0.315099, 0.999998]]"
  "lqr_B (lqr_cell dlqr) = [[0], [0.195111], [0], [- 0.292548]]"
  "lqr_Q (lqr_cell dlqr) = [[125, 0, 0, 0], [0, 50, 0, 0], [0, 0, 1200, 0], [0, 0, 0, 25]]"
  "lqr_R (lqr_cell dlqr) = [[1.5]]"
  "lqr_K (lqr_cell dlqr) = fst (dlqr (lqr_A (lqr_cell dlqr)) (lqr_B (lqr_cell dlqr))
                                     (lqr_Q (lqr_cell dlqr)) (lqr_R (lqr_cell dlqr)))"
  by (simp_all add: lqr_cell_def np_diag_def Let_def split: prod.splits)

text \<open>
  C3. The gain is computed from the constants of the controller cell only: for any
  two runs of fit and synthesis, whatever their samples and whatever the
  regression returns, the controller cell binds the same \<open>dT\<close>, \<open>A\<close>, \<open>B\<close>, \<open>Q\<close>,
  \<open>R\<close> and, from the same solver, the same gain \<open>K\<close>; the matrices passed to the
  solver are the written constants.
\<close>

theorem gain_independent_of_samples:
  "snd (fit_and_synthesise OLS_fit1 dlqr samples1) = snd (fit_and_synthesise OLS_fit2 dlqr samples2) \<and>
   lqr_K (snd (fit_and_synthesise OLS_fit1 dlqr samples1)) =
     fst (dlqr [[1, 0.02, 0, 0], [0, 1, - 0.014107, 0], [0, 0, 1, 0.02],
                [0.000031, 0.000019, 0.315099, 0.999998]]
               [[0], [0.195111], [0], [- 0.292548]]
               [[125, 0, 0, 0], [0, 50, 0, 0], [0, 0, 1200, 0], [0, 0, 0, 25]]
               [[1.5]])"
  by (simp add: fit_and_synthesise_def lqr_cell_fields)


lemma length4E:
  assumes "length v = 4"
  obtains a b c d where "v = [a, b, c, d]"
proof -
  from assms obtain a v1 where v: "v = a # v1" "length v1 = 3" by (cases v) auto
  from v(2) obtain b v2 where v1: "v1 = b # v2" "length v2 = 2" by (cases v1) auto
  from v1(2) obtain c v3 where v2: "v2 = c # v3" "length v3 = 1" by (cases v2) auto
  from v2(2) obtain d where v3: "v3 = [d]" by (cases v3) auto
  show ?thesis using that v(1) v1(1) v2(1) v3 by simp
qed

lemma Q_positive_semidefinite:
  "positive_semidefinite [[125, 0, 0, 0], [0, 50, 0, 0], [0, 0, 1200, 0], [0, 0, 0, 25]]"
proof -
  let ?Q = "[[125, 0, 0, 0], [0, 50, 0, 0], [0, 0, 1200, 0], [0, 0, 0, 25 :: real]]"
  have "symmetric ?Q"
    unfolding symmetric_def
  proof (intro allI impI)
    fix i j assume "i < length ?Q" "j < length ?Q"
    then have "i \<in> {0, 1, 2, 3}" "j \<in> {0, 1, 2, 3}" by auto
    then show "?Q ! i ! j = ?Q ! j ! i" by auto
  qed
  moreover have "0 \<le> quadratic_form ?Q v" if "length v = length ?Q" for v
  proof -
    from that have "length v = 4" by simp
    then obtain a b c d where v: "v = [a, b, c, d]" by (rule length4E)
    have e: "quadratic_form ?Q v = 125 * a\<^sup>2 + 50 * b\<^sup>2 + 1200 * c\<^sup>2 + 25 * d\<^sup>2"
      by (simp add: quadratic_form_def v power2_eq_square)
    have "(0 :: real) \<le> 125 * a\<^sup>2 + 50 * b\<^sup>2 + 1200 * c\<^sup>2 + 25 * d\<^sup>2" by simp
    then show ?thesis by (simp only: e)
  qed
  ultimately show ?thesis by (simp add: positive_semidefinite_def)
qed

lemma R_positive_semidefinite: "positive_semidefinite [[1.5]]"
proof -
  have "0 \<le> quadratic_form [[1.5]] v" if "length v = 1" for v
  proof -
    from that obtain a where v: "v = [a]" by (cases v) auto
    have e: "quadratic_form [[1.5]] v = 1.5 * a\<^sup>2"
      by (simp add: quadratic_form_def v power2_eq_square)
    have "(0 :: real) \<le> 1.5 * a\<^sup>2" by simp
    then show ?thesis by (simp only: e)
  qed
  then show ?thesis by (simp add: positive_semidefinite_def symmetric_def)
qed

text \<open>
  C7. The linear-quadratic problem of the controller cell is well-posed: \<open>A\<close> is
  4 by 4, \<open>B\<close> is 4 by 1, \<open>Q\<close> is 4 by 4 and \<open>R\<close> is 1 by 1, so that the shapes
  conform for a system of four states and one input; \<open>Q = diag(125, 50, 1200, 25)\<close>
  and \<open>R = diag(1.5)\<close> are symmetric with a quadratic form that is nowhere
  negative; and a solver that returns a gain of as many rows as inputs and as many
  columns as states returns a 1 by 4 gain \<open>K\<close>.
\<close>

theorem lqr_problem_well_posed:
  "has_shape (lqr_A (lqr_cell dlqr)) (4, 4) \<and>
   has_shape (lqr_B (lqr_cell dlqr)) (4, 1) \<and>
   has_shape (lqr_Q (lqr_cell dlqr)) (4, 4) \<and>
   has_shape (lqr_R (lqr_cell dlqr)) (1, 1) \<and>
   lqr_Q (lqr_cell dlqr) = [[125, 0, 0, 0], [0, 50, 0, 0], [0, 0, 1200, 0], [0, 0, 0, 25]] \<and>
   lqr_R (lqr_cell dlqr) = [[1.5]] \<and>
   positive_semidefinite (lqr_Q (lqr_cell dlqr)) \<and>
   positive_semidefinite (lqr_R (lqr_cell dlqr)) \<and>
   (gain_shape_contract dlqr \<longrightarrow> has_shape (lqr_K (lqr_cell dlqr)) (1, 4))"
proof -
  have sh: "has_shape (lqr_A (lqr_cell dlqr)) (4, 4)" "has_shape (lqr_B (lqr_cell dlqr)) (4, 1)"
    "has_shape (lqr_Q (lqr_cell dlqr)) (4, 4)" "has_shape (lqr_R (lqr_cell dlqr)) (1, 1)"
    by (simp_all add: lqr_cell_fields(1-4) has_shape_def)
  have k: "has_shape (lqr_K (lqr_cell dlqr)) (1, 4)" if c: "gain_shape_contract dlqr"
  proof -
    have "has_shape (fst (dlqr (lqr_A (lqr_cell dlqr)) (lqr_B (lqr_cell dlqr))
                               (lqr_Q (lqr_cell dlqr)) (lqr_R (lqr_cell dlqr)))) (1, 4)"
      using c sh unfolding gain_shape_contract_def by (metis zero_less_numeral zero_less_one)
    then show ?thesis by (simp only: lqr_cell_fields(5) [symmetric])
  qed
  show ?thesis
    using sh k Q_positive_semidefinite R_positive_semidefinite
    by (simp add: lqr_cell_fields(3,4))
qed

lemma toy_dlqr_contract: "gain_shape_contract toy_dlqr"
  unfolding gain_shape_contract_def
proof (intro allI impI)
  fix A B Q R :: matrix and n m :: nat
  assume a: "0 < n \<and> 0 < m \<and> has_shape A (n, n) \<and> has_shape B (n, m) \<and>
        has_shape Q (n, n) \<and> has_shape R (m, m)"
  then have "B \<noteq> []" by (auto simp: has_shape_def)
  then have "hd B \<in> set B" by simp
  then have "length (hd B) = m" using a by (auto simp: has_shape_def list_all_iff)
  moreover have "length A = n" using a by (simp add: has_shape_def)
  ultimately show "has_shape (fst (toy_dlqr A B Q R)) (m, n)"
    by (simp add: toy_dlqr_def has_shape_def list_all_iff)
qed

theorem lqr_problem_well_posed_witness:
  "gain_shape_contract toy_dlqr \<and>
   lqr_K (lqr_cell toy_dlqr) = [[0, 0, 0, 0]] \<and>
   has_shape (lqr_K (lqr_cell toy_dlqr)) (1, 4) \<and>
   0 \<le> quadratic_form (lqr_Q (lqr_cell toy_dlqr)) [1, - 2, 3, - 4] \<and>
   quadratic_form (lqr_Q (lqr_cell toy_dlqr)) [1, - 2, 3, - 4] = 11525"
proof -
  have k: "lqr_K (lqr_cell toy_dlqr) = [[0, 0, 0, 0]]"
    by (simp add: lqr_cell_fields toy_dlqr_def numeral_eq_Suc)
  have q: "quadratic_form (lqr_Q (lqr_cell toy_dlqr)) [1, - 2, 3, - 4] = 11525"
    by (simp add: lqr_cell_fields(3) quadratic_form_def)
  have "positive_semidefinite (lqr_Q (lqr_cell toy_dlqr))"
    and "has_shape (lqr_K (lqr_cell toy_dlqr)) (1, 4)"
    using lqr_problem_well_posed [of toy_dlqr] toy_dlqr_contract by blast+
  then show ?thesis using toy_dlqr_contract k q by simp
qed

end
